theory Spec2Isabelle
  imports Complex_Main "HOL-Library.Multiset"
begin

section \<open>JavaScript numbers and the distance calculator\<close>

text \<open>
  The edge functions compute with JavaScript numbers. A number is modelled as a
  real, or \<open>NaN\<close>: rounding of IEEE doubles and the infinities are idealised
  away, \<open>NaN\<close> is kept, because the handlers rely on every comparison with
  \<open>NaN\<close> being false.
\<close>

datatype number = NaN | Num real

text \<open>\<open>parseFloat\<close> of a nullable numeric column: \<open>null\<close> parses to \<open>NaN\<close>.\<close>

definition parseFloat :: "real option \<Rightarrow> number" where
  "parseFloat v = (case v of None \<Rightarrow> NaN | Some x \<Rightarrow> Num x)"

text \<open>The relational operator \<open><=\<close>: false as soon as one side is \<open>NaN\<close>.\<close>

fun number_le :: "number \<Rightarrow> number \<Rightarrow> bool" where
  "number_le (Num x) (Num y) = (x \<le> y)"
| "number_le _ _ = False"

text \<open>The binary \<open>-\<close>: \<open>NaN\<close> propagates.\<close>

fun number_minus :: "number \<Rightarrow> number \<Rightarrow> number" where
  "number_minus (Num x) (Num y) = Num (x - y)"
| "number_minus _ _ = NaN"

text \<open>\<open>Math.sqrt\<close> is \<open>NaN\<close> on a negative argument.\<close>

definition Math_sqrt :: "real \<Rightarrow> number" where
  "Math_sqrt x = (if x < 0 then NaN else Num (sqrt x))"

text \<open>\<open>Math.atan2(y, x)\<close>, the angle of the point \<open>(x, y)\<close>.\<close>

definition Math_atan2 :: "real \<Rightarrow> real \<Rightarrow> real" where
  "Math_atan2 y x =
     (if 0 < x then arctan (y / x)
      else if x < 0 then (if 0 \<le> y then arctan (y / x) + pi else arctan (y / x) - pi)
      else if 0 < y then pi / 2
      else if y < 0 then - (pi / 2)
      else 0)"

text \<open>
  \<open>calculateDistance\<close>, the same function in both edge functions:
  \<^verbatim>\<open>src/lib/map-config.ts\<close> (lines 40-61, where the file holds the
  \<open>assign-provider\<close> function) and
  \<^verbatim>\<open>supabase/functions/assign-pending-requests/index.ts\<close> (lines 9-21).
\<close>

definition calculateDistance :: "real \<Rightarrow> real \<Rightarrow> real \<Rightarrow> real \<Rightarrow> number" where
  "calculateDistance lat1 lon1 lat2 lon2 =
     (let R = 6371;
          dLat = (lat2 - lat1) * (pi / 180);
          dLon = (lon2 - lon1) * (pi / 180);
          a = sin (dLat / 2) * sin (dLat / 2) +
              cos (lat1 * (pi / 180)) * cos (lat2 * (pi / 180)) *
              sin (dLon / 2) * sin (dLon / 2)
      in case Math_sqrt a of
           NaN \<Rightarrow> NaN
         | Num sa \<Rightarrow>
             (case Math_sqrt (1 - a) of
                NaN \<Rightarrow> NaN
              | Num sb \<Rightarrow> Num (R * (2 * Math_atan2 sa sb))))"

section \<open>The data store\<close>

text \<open>
  Identifiers are strings (UUIDs); timestamps are clock readings. A table is the list
  of its rows, in the order a \<open>select\<close> returns them. Columns that no modelled
  statement reads or writes (\<open>description\<close>, \<open>photos\<close>, \<open>location_address\<close>,
  \<open>created_at\<close>, \<open>phone\<close>, \<open>address\<close>) are left out.
\<close>

type_synonym uuid = string
type_synonym timestamp = nat

datatype request_status = pending | assigned | in_progress | completed | cancelled

datatype app_role = Admin | Resident | Provider

record service_request =
  sr_id :: uuid
  sr_resident_id :: uuid
  sr_provider_id :: "uuid option"
  sr_category_id :: uuid
  sr_status :: request_status
  sr_location_lat :: real
  sr_location_lng :: real
  sr_updated_at :: timestamp
  sr_assigned_at :: "timestamp option"
  sr_completed_at :: "timestamp option"

record history_row =
  h_request_id :: uuid
  h_status :: request_status
  h_changed_by :: "uuid option"
  h_notes :: "string option"

record notification =
  n_user_id :: uuid
  n_title :: string
  n_message :: string
  n_type :: string
  n_related_request_id :: uuid

record provider_profile =
  pp_id :: uuid
  pp_user_id :: uuid
  pp_service_area_radius_km :: "real option"
  pp_is_available :: "bool option"

record profile =
  pf_id :: uuid
  pf_name :: string
  pf_location_lat :: "real option"
  pf_location_lng :: "real option"

record provider_category =
  pc_provider_profile_id :: uuid
  pc_category_id :: uuid

record user_role =
  ur_user_id :: uuid
  ur_role :: app_role

record database =
  service_requests :: "service_request list"
  request_status_history :: "history_row list"
  notifications :: "notification list"
  provider_profiles :: "provider_profile list"
  profiles :: "profile list"
  provider_categories :: "provider_category list"
  user_roles :: "user_role list"

subsection \<open>Triggers on \<open>service_requests\<close>\<close>

text \<open>
  The triggers as the last migration
  (\<^verbatim>\<open>supabase/migrations/20251018025246_...sql\<close>) leaves them:
  \<open>update_request_timestamps\<close> (defined in \<^verbatim>\<open>20251018023845_...sql\<close>) and
  \<open>update_updated_at_column\<close> run \<open>BEFORE UPDATE\<close>, \<open>log_request_status_change\<close>
  runs \<open>AFTER INSERT OR UPDATE\<close>, each \<open>FOR EACH ROW\<close>.
\<close>

datatype tg_op = INSERT | UPDATE

definition update_request_timestamps :: "timestamp \<Rightarrow> service_request \<Rightarrow> service_request" where
  "update_request_timestamps now NEW =
     (if sr_status NEW = assigned \<and> sr_assigned_at NEW = None then NEW\<lparr>sr_assigned_at := Some now\<rparr>
      else if sr_status NEW = completed \<and> sr_completed_at NEW = None then NEW\<lparr>sr_completed_at := Some now\<rparr>
      else NEW)"

definition update_updated_at_column :: "timestamp \<Rightarrow> service_request \<Rightarrow> service_request" where
  "update_updated_at_column now NEW = NEW\<lparr>sr_updated_at := now\<rparr>"

text \<open>
  \<open>log_request_status_change\<close>: the rows it inserts into \<open>request_status_history\<close>.
  \<open>auth_uid\<close> is \<open>auth.uid()\<close>: \<open>None\<close> for the service role of the edge functions.
\<close>

definition log_request_status_change ::
  "tg_op \<Rightarrow> uuid option \<Rightarrow> service_request \<Rightarrow> service_request \<Rightarrow> history_row list" where
  "log_request_status_change op auth_uid OLD NEW =
     (if op = INSERT \<or> sr_status OLD \<noteq> sr_status NEW
      then [\<lparr>h_request_id = sr_id NEW, h_status = sr_status NEW,
             h_changed_by = (case auth_uid of Some u \<Rightarrow> Some u | None \<Rightarrow> Some (sr_resident_id NEW)),
             h_notes = None\<rparr>]
      else [])"

subsection \<open>Statements\<close>

text \<open>
  \<open>UPDATE service_requests SET \<dots> WHERE \<dots>\<close>: \<open>wh\<close> is the \<open>WHERE\<close> clause,
  \<open>st\<close> the \<open>SET\<close> clause. Every row the clause selects goes through the
  \<open>BEFORE\<close> triggers and is logged by the \<open>AFTER\<close> trigger; a row the clause
  does not select is left as it is.
\<close>

definition update_row :: "timestamp \<Rightarrow> (service_request \<Rightarrow> service_request) \<Rightarrow> service_request \<Rightarrow> service_request" where
  "update_row now st OLD = update_updated_at_column now (update_request_timestamps now (st OLD))"

definition update_service_requests ::
  "uuid option \<Rightarrow> timestamp \<Rightarrow> (service_request \<Rightarrow> bool) \<Rightarrow> (service_request \<Rightarrow> service_request) \<Rightarrow>
   database \<Rightarrow> database" where
  "update_service_requests auth_uid now wh st db =
     db\<lparr>service_requests := map (\<lambda>r. if wh r then update_row now st r else r) (service_requests db),
        request_status_history := request_status_history db @
          concat (map (\<lambda>r. log_request_status_change UPDATE auth_uid r (update_row now st r))
                      (filter wh (service_requests db)))\<rparr>"

text \<open>\<open>INSERT INTO service_requests\<close>, as \<open>CreateRequest\<close> issues it.\<close>

definition insert_service_request :: "uuid option \<Rightarrow> service_request \<Rightarrow> database \<Rightarrow> database" where
  "insert_service_request auth_uid NEW db =
     db\<lparr>service_requests := service_requests db @ [NEW],
        request_status_history := request_status_history db @ log_request_status_change INSERT auth_uid NEW NEW\<rparr>"

definition insert_notifications :: "notification list \<Rightarrow> database \<Rightarrow> database" where
  "insert_notifications ns db = db\<lparr>notifications := notifications db @ ns\<rparr>"

definition insert_history :: "history_row \<Rightarrow> database \<Rightarrow> database" where
  "insert_history h db = db\<lparr>request_status_history := request_status_history db @ [h]\<rparr>"

text \<open>\<open>.single()\<close>: the one row of the result, an error when there is none or more than one.\<close>

definition single :: "'a list \<Rightarrow> 'a option" where
  "single rows = (case rows of [x] \<Rightarrow> Some x | _ \<Rightarrow> None)"

subsection \<open>The environment of a call\<close>

text \<open>
  Every statement a handler sends may fail in the store or on the way to it. \<open>fails\<close>
  says which do; a failed statement changes nothing and yields \<open>error\<close>.
  \<open>date_now\<close> is the reading of \<open>new Date()\<close> and \<open>pg_now\<close> the reading of
  \<open>now()\<close> when the update of the given request is issued; \<open>toFixed2\<close> is
  \<open>Number.prototype.toFixed(2)\<close>.
\<close>

datatype call =
    Select_service_requests
  | Select_provider_categories
  | Select_provider_profiles
  | Select_profiles
  | Select_user_roles
  | Select_provider_user
  | Update_service_requests uuid
  | Insert_history uuid
  | Insert_admin_notifications uuid
  | Insert_notification uuid uuid

record env =
  fails :: "call \<Rightarrow> bool"
  date_now :: "uuid \<Rightarrow> timestamp"
  pg_now :: "uuid \<Rightarrow> timestamp"
  toFixed2 :: "number \<Rightarrow> string"

datatype jvalue = JBool bool | JStr string | JNat nat | JObj "(string \<times> jvalue) list"

record response =
  status :: nat
  body :: "(string \<times> jvalue) list"

section \<open>Single-request assignment (\<open>assign-provider\<close>)\<close>

record candidate =
  providerId :: uuid
  providerName :: string
  distance :: number
  serviceRadius :: number

text \<open>
  \<open>Array.prototype.sort\<close> with a comparator. The sort is stable; it is modelled as
  the insertion sort that puts an element behind exactly those it compares greater to.
  A comparator result of \<open>NaN\<close> counts as zero.
\<close>

definition SortCompare :: "('a \<Rightarrow> 'a \<Rightarrow> number) \<Rightarrow> 'a \<Rightarrow> 'a \<Rightarrow> real" where
  "SortCompare comparefn x y = (case comparefn x y of NaN \<Rightarrow> 0 | Num v \<Rightarrow> v)"

fun insert_sorted :: "('a \<Rightarrow> 'a \<Rightarrow> number) \<Rightarrow> 'a \<Rightarrow> 'a list \<Rightarrow> 'a list" where
  "insert_sorted comparefn x [] = [x]"
| "insert_sorted comparefn x (y # ys) =
     (if 0 < SortCompare comparefn x y then y # insert_sorted comparefn x ys else x # y # ys)"

fun Array_sort :: "('a \<Rightarrow> 'a \<Rightarrow> number) \<Rightarrow> 'a list \<Rightarrow> 'a list" where
  "Array_sort comparefn [] = []"
| "Array_sort comparefn (x # xs) = insert_sorted comparefn x (Array_sort comparefn xs)"

text \<open>
  The callback of \<open>providerProfiles.map\<close>: \<open>None\<close> is the \<open>null\<close> it returns for a
  provider without a profile row or without coordinates.
\<close>

definition to_candidate :: "service_request \<Rightarrow> profile list \<Rightarrow> provider_profile \<Rightarrow> candidate option" where
  "to_candidate request profs provider =
     (case find (\<lambda>p. pf_id p = pp_user_id provider) profs of
        None \<Rightarrow> None
      | Some prof \<Rightarrow>
          (case pf_location_lat prof of
             None \<Rightarrow> None
           | Some lat \<Rightarrow>
               (case pf_location_lng prof of
                  None \<Rightarrow> None
                | Some lng \<Rightarrow>
                    Some \<lparr>providerId = pp_id provider,
                          providerName = pf_name prof,
                          distance = calculateDistance (sr_location_lat request) (sr_location_lng request) lat lng,
                          serviceRadius = parseFloat (pp_service_area_radius_km provider)\<rparr>)))"

definition in_radius :: "candidate \<Rightarrow> bool" where
  "in_radius p = number_le (distance p) (serviceRadius p)"

definition by_distance :: "candidate \<Rightarrow> candidate \<Rightarrow> number" where
  "by_distance a b = number_minus (distance a) (distance b)"

definition providersWithDistance ::
  "service_request \<Rightarrow> provider_profile list \<Rightarrow> profile list \<Rightarrow> candidate list" where
  "providersWithDistance request providerProfiles profs =
     Array_sort by_distance
       (filter in_radius (List.map_filter (to_candidate request profs) providerProfiles))"

definition hard_failure :: "string \<Rightarrow> response" where
  "hard_failure msg = \<lparr>status = 400, body = [(''success'', JBool False), (''error'', JStr msg)]\<rparr>"

definition no_match :: "string \<Rightarrow> uuid \<Rightarrow> response" where
  "no_match msg requestId =
     \<lparr>status = 200,
      body = [(''success'', JBool False), (''message'', JStr msg), (''requestId'', JStr requestId)]\<rparr>"

definition assigned_response :: "env \<Rightarrow> candidate \<Rightarrow> uuid \<Rightarrow> response" where
  "assigned_response e p requestId =
     \<lparr>status = 200,
      body = [(''success'', JBool True),
              (''message'', JStr ''Provider assigned successfully''),
              (''provider'', JObj [(''id'', JStr (providerId p)), (''name'', JStr (providerName p)),
                                  (''distance'', JStr (toFixed2 e (distance p)))]),
              (''requestId'', JStr requestId)]\<rparr>"

definition select_request :: "env \<Rightarrow> database \<Rightarrow> uuid \<Rightarrow> service_request option" where
  "select_request e db requestId =
     (if fails e Select_service_requests then None
      else single (filter (\<lambda>r. sr_id r = requestId) (service_requests db)))"

definition adminNotifications :: "uuid \<Rightarrow> user_role list \<Rightarrow> notification list" where
  "adminNotifications requestId adminUsers =
     map (\<lambda>a. \<lparr>n_user_id = ur_user_id a,
                n_title = ''Assignment Failed'',
                n_message = ''No available provider found for request '' @ requestId,
                n_type = ''warning'',
                n_related_request_id = requestId\<rparr>) adminUsers"

definition notify_admins :: "env \<Rightarrow> uuid \<Rightarrow> database \<Rightarrow> database" where
  "notify_admins e requestId db =
     (if fails e Select_user_roles then db
      else let adminUsers = filter (\<lambda>u. ur_role u = Admin) (user_roles db)
           in if adminUsers = [] \<or> fails e (Insert_admin_notifications requestId) then db
              else insert_notifications (adminNotifications requestId adminUsers) db)"

text \<open>The update of \<open>assign-provider\<close>: \<open>.update({\<dots>}).eq('id', requestId)\<close>.\<close>

definition assign_update :: "env \<Rightarrow> uuid \<Rightarrow> uuid \<Rightarrow> database \<Rightarrow> database" where
  "assign_update e requestId pid db =
     update_service_requests None (pg_now e requestId)
       (\<lambda>r. sr_id r = requestId)
       (\<lambda>r. r\<lparr>sr_provider_id := Some pid, sr_status := assigned,
               sr_assigned_at := Some (date_now e requestId)\<rparr>)
       db"

definition insert_notification :: "env \<Rightarrow> notification \<Rightarrow> database \<Rightarrow> database" where
  "insert_notification e n db =
     (if fails e (Insert_notification (n_user_id n) (n_related_request_id n)) then db
      else insert_notifications [n] db)"

definition notify_assignment :: "env \<Rightarrow> service_request \<Rightarrow> uuid \<Rightarrow> candidate \<Rightarrow> database \<Rightarrow> database" where
  "notify_assignment e request requestId assignedProvider db =
     (let providerProfile =
            (if fails e Select_provider_user then None
             else single (filter (\<lambda>pp. pp_id pp = providerId assignedProvider) (provider_profiles db)));
          db1 = insert_notification e
                  \<lparr>n_user_id = sr_resident_id request,
                   n_title = ''Service Request Assigned'',
                   n_message = ''Your request has been assigned to '' @ providerName assignedProvider,
                   n_type = ''success'',
                   n_related_request_id = requestId\<rparr> db
      in case providerProfile of
           None \<Rightarrow> db1
         | Some pp \<Rightarrow>
             if pp_user_id pp = [] then db1
             else insert_notification e
                    \<lparr>n_user_id = pp_user_id pp,
                     n_title = ''New Job Assignment'',
                     n_message = ''You have been assigned a new service request'',
                     n_type = ''info'',
                     n_related_request_id = requestId\<rparr> db1)"

text \<open>
  The handler of \<open>assign-provider\<close> (\<^verbatim>\<open>src/lib/map-config.ts\<close>, lines
  63-317), for a request body \<open>{ requestId }\<close>. Every \<open>throw\<close> ends in the
  \<open>catch\<close> block, which answers 400 with the message of the error. The reply to a
  CORS preflight, which reads and writes nothing, is left out.
\<close>

definition assign_provider :: "env \<Rightarrow> database \<Rightarrow> uuid \<Rightarrow> response \<times> database" where
  "assign_provider e db requestId =
     (case select_request e db requestId of
        None \<Rightarrow> (hard_failure ''Service request not found'', db)
      | Some request \<Rightarrow>
          if fails e Select_provider_categories then (hard_failure ''Failed to fetch providers'', db)
          else
            let providerCategories =
                  filter (\<lambda>pc. pc_category_id pc = sr_category_id request) (provider_categories db)
            in
            if providerCategories = []
            then (no_match ''No providers available for this category'' requestId, db)
            else if fails e Select_provider_profiles
            then (hard_failure ''Failed to fetch provider profiles'', db)
            else
              let providerProfiles =
                    filter (\<lambda>pp. pp_id pp \<in> set (map pc_provider_profile_id providerCategories) \<and>
                                 pp_is_available pp = Some True)
                           (provider_profiles db);
                  userIds = map pp_user_id providerProfiles
              in
              if fails e Select_profiles then (hard_failure ''Failed to fetch user profiles'', db)
              else
                let profs = filter (\<lambda>p. pf_id p \<in> set userIds) (profiles db)
                in
                case providersWithDistance request providerProfiles profs of
                  [] \<Rightarrow> (no_match ''No available providers found in service area'' requestId,
                         notify_admins e requestId db)
                | assignedProvider # _ \<Rightarrow>
                    if fails e (Update_service_requests requestId)
                    then (hard_failure ''Failed to assign provider'', db)
                    else (assigned_response e assignedProvider requestId,
                          notify_assignment e request requestId assignedProvider
                            (assign_update e requestId (providerId assignedProvider) db)))"

section \<open>Batch assignment (\<open>assign-pending-requests\<close>)\<close>

text \<open>\<open>calculateDistance\<close> on arguments that went through \<open>parseFloat\<close>: \<open>NaN\<close> propagates.\<close>

fun calculateDistance_num :: "number \<Rightarrow> number \<Rightarrow> number \<Rightarrow> number \<Rightarrow> number" where
  "calculateDistance_num (Num lat1) (Num lon1) (Num lat2) (Num lon2) = calculateDistance lat1 lon1 lat2 lon2"
| "calculateDistance_num _ _ _ _ = NaN"

text \<open>The decimal digits of a count, as a template literal prints it.\<close>

fun string_of_nat :: "nat \<Rightarrow> string" where
  "string_of_nat n =
     (if n < 10 then [''0123456789'' ! n]
      else string_of_nat (n div 10) @ [''0123456789'' ! (n mod 10)])"

declare string_of_nat.simps [simp del]

text \<open>
  \<open>parseFloat(providerProfile.service_area_radius_km?.toString() || '10')\<close>: the
  string of a number is never empty, so \<open>'10'\<close> is taken exactly when the column is
  \<open>null\<close>.
\<close>

definition serviceRadius_of :: "provider_profile \<Rightarrow> number" where
  "serviceRadius_of providerProfile =
     (case pp_service_area_radius_km providerProfile of None \<Rightarrow> Num 10 | Some r \<Rightarrow> Num r)"

definition error_response :: "nat \<Rightarrow> string \<Rightarrow> response" where
  "error_response code msg = \<lparr>status = code, body = [(''error'', JStr msg)]\<rparr>"

definition batch_response :: "nat \<Rightarrow> response" where
  "batch_response assignedCount =
     \<lparr>status = 200,
      body = [(''success'', JBool True),
              (''message'', JStr (''Assigned '' @ string_of_nat assignedCount @ '' pending request(s)'')),
              (''assignedCount'', JNat assignedCount)]\<rparr>"

text \<open>
  The update of the loop:
  \<open>.update({\<dots>}).eq('id', request.id).eq('status', 'pending')\<close>.
\<close>

definition batch_update :: "env \<Rightarrow> uuid \<Rightarrow> uuid \<Rightarrow> database \<Rightarrow> database" where
  "batch_update e requestId pid db =
     update_service_requests None (pg_now e requestId)
       (\<lambda>r. sr_id r = requestId \<and> sr_status r = pending)
       (\<lambda>r. r\<lparr>sr_provider_id := Some pid, sr_status := assigned,
               sr_assigned_at := Some (date_now e requestId)\<rparr>)
       db"

definition resident_notification :: "service_request \<Rightarrow> notification" where
  "resident_notification request =
     \<lparr>n_user_id = sr_resident_id request,
      n_title = ''Service Provider Assigned'',
      n_message = ''A service provider has been assigned to your request.'',
      n_type = ''request_assigned'',
      n_related_request_id = sr_id request\<rparr>"

definition provider_notification :: "uuid \<Rightarrow> service_request \<Rightarrow> notification" where
  "provider_notification userId request =
     \<lparr>n_user_id = userId,
      n_title = ''New Service Assignment'',
      n_message = ''You have been assigned a new service request.'',
      n_type = ''new_assignment'',
      n_related_request_id = sr_id request\<rparr>"

definition within_range :: "number \<Rightarrow> number \<Rightarrow> number \<Rightarrow> service_request \<Rightarrow> bool" where
  "within_range providerLat providerLng radius request =
     number_le
       (calculateDistance_num providerLat providerLng
          (Num (sr_location_lat request)) (Num (sr_location_lng request)))
       radius"

text \<open>
  The body of the \<open>for\<close> loop for a request whose update went through: the update,
  then the notification of the resident, then that of the provider.
\<close>

definition assign_step :: "env \<Rightarrow> uuid \<Rightarrow> uuid \<Rightarrow> service_request \<Rightarrow> database \<Rightarrow> database" where
  "assign_step e userId pid request db =
     insert_notification e (provider_notification userId request)
       (insert_notification e (resident_notification request)
          (batch_update e (sr_id request) pid db))"

text \<open>The \<open>for\<close> loop over \<open>pendingRequests\<close>; the state is the store and \<open>assignedCount\<close>.\<close>

fun assign_loop ::
  "env \<Rightarrow> uuid \<Rightarrow> uuid \<Rightarrow> number \<Rightarrow> number \<Rightarrow> number \<Rightarrow> service_request list \<Rightarrow>
   database \<times> nat \<Rightarrow> database \<times> nat" where
  "assign_loop e userId pid providerLat providerLng radius [] st = st"
| "assign_loop e userId pid providerLat providerLng radius (request # rest) (db, assignedCount) =
     (if within_range providerLat providerLng radius request
      then
        if fails e (Update_service_requests (sr_id request))
        then assign_loop e userId pid providerLat providerLng radius rest (db, assignedCount)
        else assign_loop e userId pid providerLat providerLng radius rest
               (assign_step e userId pid request db, assignedCount + 1)
      else assign_loop e userId pid providerLat providerLng radius rest (db, assignedCount))"

text \<open>
  The handler of \<open>assign-pending-requests\<close>
  (\<^verbatim>\<open>supabase/functions/assign-pending-requests/index.ts\<close>), for a request body
  \<open>{ userId }\<close>; \<open>None\<close> is a body without \<open>userId\<close>, and an empty
  \<open>userId\<close> is as falsy as a missing one.
\<close>

definition assign_pending_requests :: "env \<Rightarrow> database \<Rightarrow> uuid option \<Rightarrow> response \<times> database" where
  "assign_pending_requests e db userId_opt =
     (case userId_opt of
        None \<Rightarrow> (error_response 400 ''userId is required'', db)
      | Some userId \<Rightarrow>
          if userId = [] then (error_response 400 ''userId is required'', db)
          else
            case (if fails e Select_provider_profiles then None
                  else single (filter (\<lambda>pp. pp_user_id pp = userId) (provider_profiles db))) of
              None \<Rightarrow> (error_response 404 ''Provider profile not found'', db)
            | Some providerProfile \<Rightarrow>
                if pp_is_available providerProfile \<noteq> Some True
                then (\<lparr>status = 200, body = [(''message'', JStr ''Provider is not available'')]\<rparr>, db)
                else
                  case (if fails e Select_profiles then None
                        else single (filter (\<lambda>p. pf_id p = userId) (profiles db))) of
                    None \<Rightarrow> (error_response 404 ''Provider location not found'', db)
                  | Some providerProfileData \<Rightarrow>
                      let providerCategories =
                            filter (\<lambda>pc. pc_provider_profile_id pc = pp_id providerProfile)
                                   (provider_categories db)
                      in
                      if fails e Select_provider_categories \<or> providerCategories = []
                      then (error_response 400 ''Provider has no service categories'', db)
                      else
                        let categoryIds = map pc_category_id providerCategories
                        in
                        if fails e Select_service_requests
                        then (error_response 500 ''Failed to fetch pending requests'', db)
                        else
                          let pendingRequests =
                                filter (\<lambda>r. sr_status r = pending \<and> sr_category_id r \<in> set categoryIds \<and>
                                            sr_provider_id r = None)
                                       (service_requests db)
                          in
                          if pendingRequests = []
                          then (\<lparr>status = 200,
                                 body = [(''message'', JStr ''No pending requests found''),
                                         (''assignedCount'', JNat 0)]\<rparr>, db)
                          else
                            let (db', assignedCount) =
                                  assign_loop e userId (pp_id providerProfile)
                                    (parseFloat (pf_location_lat providerProfileData))
                                    (parseFloat (pf_location_lng providerProfileData))
                                    (serviceRadius_of providerProfile)
                                    pendingRequests (db, 0)
                            in (batch_response assignedCount, db'))"

section \<open>The earlier \<open>assign-provider\<close> handler\<close>






section \<open>Completion by the provider (\<open>ProviderJobActions\<close>)\<close>

text \<open>
  \<open>handleMarkCompleted\<close> of \<^verbatim>\<open>src/components/ProviderJobActions.tsx\<close>. The
  component talks to the store as the signed-in user \<open>uid\<close>, so the row-level
  security policies of \<open>service_requests\<close> (in the migration that creates the table)
  decide which rows its statements see.
\<close>

definition has_role :: "database \<Rightarrow> uuid \<Rightarrow> app_role \<Rightarrow> bool" where
  "has_role db user_id role = list_ex (\<lambda>u. ur_user_id u = user_id \<and> ur_role u = role) (user_roles db)"

definition is_provider_of :: "database \<Rightarrow> uuid \<Rightarrow> service_request \<Rightarrow> bool" where
  "is_provider_of db uid r =
     list_ex (\<lambda>pp. Some (pp_id pp) = sr_provider_id r \<and> pp_user_id pp = uid) (provider_profiles db)"

definition may_select :: "database \<Rightarrow> uuid \<Rightarrow> service_request \<Rightarrow> bool" where
  "may_select db uid r = (uid = sr_resident_id r \<or> is_provider_of db uid r \<or> has_role db uid Admin)"

definition may_update :: "database \<Rightarrow> uuid \<Rightarrow> service_request \<Rightarrow> bool" where
  "may_update db uid r =
     ((uid = sr_resident_id r \<and> sr_status r = pending) \<or> is_provider_of db uid r \<or> has_role db uid Admin)"

datatype toast = Toast_Success | Toast_Error

text \<open>
  The update of \<open>handleMarkCompleted\<close>. Its policies have no \<open>WITH CHECK\<close>, so the
  \<open>USING\<close> expression is also checked on the new row; a new row that no policy admits
  makes the statement fail.
\<close>

definition mark_completed :: "env \<Rightarrow> uuid \<Rightarrow> service_request \<Rightarrow> service_request" where
  "mark_completed e requestId r = r\<lparr>sr_status := completed, sr_completed_at := Some (date_now e requestId)\<rparr>"

definition handleMarkCompleted :: "env \<Rightarrow> uuid \<Rightarrow> database \<Rightarrow> uuid \<Rightarrow> toast \<times> database" where
  "handleMarkCompleted e uid db requestId =
     (case (if fails e Select_service_requests then None
            else single (filter (\<lambda>r. sr_id r = requestId \<and> may_select db uid r) (service_requests db))) of
        None \<Rightarrow> (Toast_Error, db)
      | Some request \<Rightarrow>
          if fails e (Update_service_requests requestId) \<or>
             list_ex (\<lambda>r. sr_id r = requestId \<and> may_update db uid r \<and>
                            \<not> may_update db uid (mark_completed e requestId r))
                     (service_requests db)
          then (Toast_Error, db)
          else
            let db1 = update_service_requests (Some uid) (pg_now e requestId)
                        (\<lambda>r. sr_id r = requestId \<and> may_update db uid r)
                        (mark_completed e requestId)
                        db
            in (Toast_Success,
                if sr_resident_id request = [] then db1
                else insert_notification e
                       \<lparr>n_user_id = sr_resident_id request,
                        n_title = ''Service Completed'',
                        n_message = ''Your service request has been marked as completed'',
                        n_type = ''success'',
                        n_related_request_id = requestId\<rparr> db1))"

text \<open>The haversine of the central angle between two points, as the formula is usually written.\<close>

definition hav :: "real \<Rightarrow> real \<Rightarrow> real \<Rightarrow> real \<Rightarrow> real" where
  "hav lat1 lon1 lat2 lon2 =
     (sin ((lat2 - lat1) * (pi / 180) / 2))\<^sup>2 +
     cos (lat1 * (pi / 180)) * cos (lat2 * (pi / 180)) * (sin ((lon2 - lon1) * (pi / 180) / 2))\<^sup>2"

text \<open>
  The Taylor polynomial of the cosine up to degree 12; it is within \<open>x^14 / 14!\<close> of
  \<open>cos x\<close> and serves to bound the distance of the two cities of the fixture.
\<close>

definition cos_poly :: "real \<Rightarrow> real" where
  "cos_poly x = 1 - x^2 / 2 + x^4 / 24 - x^6 / 720 + x^8 / 40320 - x^10 / 3628800 + x^12 / 479001600"

section \<open>Sample stores\<close>

text \<open>The length in kilometres of \<open>x\<close> degrees of a meridian of the calculator's sphere.\<close>

definition km_of_degrees :: "real \<Rightarrow> real" where
  "km_of_degrees x = 6371 * (x * (pi / 180))"

text \<open>
  A small town on the meridian of longitude 0. Requests are placed at latitude 0,
  unless they are far requests, placed at latitude 2 (some 222 km to the north).
  Providers \<open>p1\<close> and \<open>p4\<close> live at latitude 0.05 (some 5.6 km away), \<open>p2\<close> and
  \<open>p5\<close> at latitude 0, \<open>p3\<close> at latitude 1 (some 111 km away). \<open>p1\<close>, \<open>p3\<close> and
  \<open>p5\<close> serve 10 km, \<open>p2\<close> serves 0 km, \<open>p4\<close> has no radius on record; \<open>p5\<close>
  is switched off. Category \<open>c1\<close> is offered by all five, category \<open>c3\<close> by \<open>p3\<close>
  alone, category \<open>c2\<close> by nobody. \<open>a1\<close> is the admin.
\<close>

definition env0 :: env where
  "env0 = \<lparr>fails = (\<lambda>_. False), date_now = (\<lambda>_. 9), pg_now = (\<lambda>_. 9), toFixed2 = (\<lambda>_. ''0.00'')\<rparr>"

definition sample_request :: "uuid \<Rightarrow> uuid \<Rightarrow> uuid \<Rightarrow> service_request" where
  "sample_request rid uid cid =
     \<lparr>sr_id = rid, sr_resident_id = uid, sr_provider_id = None, sr_category_id = cid,
      sr_status = pending, sr_location_lat = 0, sr_location_lng = 0, sr_updated_at = 1,
      sr_assigned_at = None, sr_completed_at = None\<rparr>"

definition far_request :: "uuid \<Rightarrow> uuid \<Rightarrow> uuid \<Rightarrow> service_request" where
  "far_request rid uid cid = (sample_request rid uid cid)\<lparr>sr_location_lat := 2\<rparr>"

definition town :: database where
  "town =
     \<lparr>service_requests = [],
      request_status_history = [],
      notifications = [],
      provider_profiles =
        [\<lparr>pp_id = ''p1'', pp_user_id = ''v1'', pp_service_area_radius_km = Some 10, pp_is_available = Some True\<rparr>,
         \<lparr>pp_id = ''p2'', pp_user_id = ''v2'', pp_service_area_radius_km = Some 0, pp_is_available = Some True\<rparr>,
         \<lparr>pp_id = ''p3'', pp_user_id = ''v3'', pp_service_area_radius_km = Some 10, pp_is_available = Some True\<rparr>,
         \<lparr>pp_id = ''p4'', pp_user_id = ''v4'', pp_service_area_radius_km = None, pp_is_available = Some True\<rparr>,
         \<lparr>pp_id = ''p5'', pp_user_id = ''v5'', pp_service_area_radius_km = Some 10, pp_is_available = Some False\<rparr>],
      profiles =
        [\<lparr>pf_id = ''v1'', pf_name = ''Asha'', pf_location_lat = Some (1 / 20), pf_location_lng = Some 0\<rparr>,
         \<lparr>pf_id = ''v2'', pf_name = ''Bala'', pf_location_lat = Some 0, pf_location_lng = Some 0\<rparr>,
         \<lparr>pf_id = ''v3'', pf_name = ''Chitra'', pf_location_lat = Some 1, pf_location_lng = Some 0\<rparr>,
         \<lparr>pf_id = ''v4'', pf_name = ''Dev'', pf_location_lat = Some (1 / 20), pf_location_lng = Some 0\<rparr>,
         \<lparr>pf_id = ''v5'', pf_name = ''Esha'', pf_location_lat = Some 0, pf_location_lng = Some 0\<rparr>],
      provider_categories =
        [\<lparr>pc_provider_profile_id = ''p1'', pc_category_id = ''c1''\<rparr>,
         \<lparr>pc_provider_profile_id = ''p2'', pc_category_id = ''c1''\<rparr>,
         \<lparr>pc_provider_profile_id = ''p3'', pc_category_id = ''c1''\<rparr>,
         \<lparr>pc_provider_profile_id = ''p4'', pc_category_id = ''c1''\<rparr>,
         \<lparr>pc_provider_profile_id = ''p5'', pc_category_id = ''c1''\<rparr>,
         \<lparr>pc_provider_profile_id = ''p3'', pc_category_id = ''c3''\<rparr>],
      user_roles = [\<lparr>ur_user_id = ''a1'', ur_role = Admin\<rparr>, \<lparr>ur_user_id = ''v1'', ur_role = Provider\<rparr>]\<rparr>"

text \<open>The town with one pending request \<open>r1\<close> of resident \<open>u1\<close> in the given category.\<close>

definition town_with :: "uuid \<Rightarrow> database" where
  "town_with cid = insert_service_request (Some ''u1'') (sample_request ''r1'' ''u1'' cid) town"

text \<open>
  The town with four pending requests in category \<open>c1\<close>, the last of them far away,
  and a call during which the update of \<open>r2\<close> fails.
\<close>

definition town_busy :: database where
  "town_busy =
     insert_service_request (Some ''u2'') (far_request ''r4'' ''u2'' ''c1'')
       (insert_service_request (Some ''u1'') (sample_request ''r3'' ''u1'' ''c1'')
          (insert_service_request (Some ''u2'') (sample_request ''r2'' ''u2'' ''c1'')
             (insert_service_request (Some ''u1'') (sample_request ''r1'' ''u1'' ''c1'') town)))"


text \<open>
  An earlier call, at time 5. In \<open>town_assigned\<close> the batch job of provider \<open>p1\<close> has
  taken \<open>r1\<close>; in \<open>town_assigned_once\<close> the single-request assignment has given it
  to the nearest provider, \<open>p2\<close>; in \<open>town_completed\<close> \<open>p2\<close> has then marked it
  completed.
\<close>

definition env5 :: env where
  "env5 = env0\<lparr>date_now := (\<lambda>_. 5), pg_now := (\<lambda>_. 5)\<rparr>"

definition town_assigned :: database where
  "town_assigned = snd (assign_pending_requests env5 (town_with ''c1'') (Some ''v1''))"

definition town_assigned_once :: database where
  "town_assigned_once = snd (assign_provider env5 (town_with ''c1'') ''r1'')"

definition town_completed :: database where
  "town_completed = snd (handleMarkCompleted env5 ''v2'' town_assigned_once ''r1'')"

section \<open>Properties of the distance calculator\<close>


lemma hav_upper: "hav lat1 lon1 lat2 lon2 \<le> 1" and hav_lower: "0 \<le> hav lat1 lon1 lat2 lon2"
proof -
  define p where "p = lat1 * (pi / 180)"
  define q where "q = lat2 * (pi / 180)"
  define s where "s = (sin ((lon2 - lon1) * (pi / 180) / 2))\<^sup>2"
  have s01: "0 \<le> s" "s \<le> 1"
    unfolding s_def by (simp_all add: abs_square_le_1)
  have d: "(lat2 - lat1) * (pi / 180) / 2 = (q - p) / 2"
    by (simp add: p_def q_def field_simps)
  have h: "hav lat1 lon1 lat2 lon2 = (1 - cos (q - p)) / 2 + cos p * cos q * s"
  proof -
    define t where "t = (q - p) / 2"
    have qp: "q - p = 2 * t" by (simp add: t_def)
    have "cos (2 * t) = 1 - 2 * (sin t)\<^sup>2" by (rule cos_double_sin)
    then have "(sin t)\<^sup>2 = (1 - cos (2 * t)) / 2" by simp
    then have "(sin ((q - p) / 2))\<^sup>2 = (1 - cos (q - p)) / 2"
      unfolding qp [symmetric] by (simp add: t_def)
    then show ?thesis
      unfolding hav_def d by (simp add: p_def q_def s_def)
  qed
  have cc: "cos p * cos q = (cos (q - p) + cos (q + p)) / 2"
    using cos_times_cos [of q p] by (simp add: mult.commute)
  have e: "hav lat1 lon1 lat2 lon2 = (1 - s) * ((1 - cos (q - p)) / 2) + s * ((1 + cos (q + p)) / 2)"
    unfolding h cc by (simp add: field_simps)
  have a0: "0 \<le> (1 - cos (q - p)) / 2" and a1: "(1 - cos (q - p)) / 2 \<le> 1"
    by simp_all
  have b0: "0 \<le> (1 + cos (q + p)) / 2" and b1: "(1 + cos (q + p)) / 2 \<le> 1"
    using cos_ge_minus_one [of "q + p"] by (simp_all del: cos_ge_minus_one)
  show "0 \<le> hav lat1 lon1 lat2 lon2"
    unfolding e using s01 a0 b0 by simp
  have "(1 - s) * ((1 - cos (q - p)) / 2) \<le> (1 - s) * 1"
    using s01 a1 by (intro mult_left_mono) simp_all
  moreover have "s * ((1 + cos (q + p)) / 2) \<le> s * 1"
    using s01 b1 by (intro mult_left_mono) simp_all
  ultimately show "hav lat1 lon1 lat2 lon2 \<le> 1"
    unfolding e by simp
qed

lemma calculateDistance_hav:
  "calculateDistance lat1 lon1 lat2 lon2 =
     Num (6371 * (2 * Math_atan2 (sqrt (hav lat1 lon1 lat2 lon2)) (sqrt (1 - hav lat1 lon1 lat2 lon2))))"
proof -
  have a: "sin ((lat2 - lat1) * (pi / 180) / 2) * sin ((lat2 - lat1) * (pi / 180) / 2) +
           cos (lat1 * (pi / 180)) * cos (lat2 * (pi / 180)) *
           sin ((lon2 - lon1) * (pi / 180) / 2) * sin ((lon2 - lon1) * (pi / 180) / 2) =
           hav lat1 lon1 lat2 lon2"
    unfolding hav_def by (simp add: power2_eq_square algebra_simps)
  show ?thesis
    unfolding calculateDistance_def Let_def a Math_sqrt_def
    using hav_lower [of lat1 lon1 lat2 lon2] hav_upper [of lat1 lon1 lat2 lon2]
    by simp
qed

lemma fourteen: "(14::nat) = Suc (Suc (Suc (Suc (Suc (Suc (Suc (Suc (Suc (Suc (Suc (Suc (Suc (Suc 0)))))))))))))"
  by simp

lemma cos_coeffs:
  "cos_coeff 0 = 1" "cos_coeff 1 = 0" "cos_coeff 2 = - 1 / 2" "cos_coeff 3 = 0"
  "cos_coeff 4 = 1 / 24" "cos_coeff 5 = 0" "cos_coeff 6 = - 1 / 720" "cos_coeff 7 = 0"
  "cos_coeff 8 = 1 / 40320" "cos_coeff 9 = 0" "cos_coeff 10 = - 1 / 3628800" "cos_coeff 11 = 0"
  "cos_coeff 12 = 1 / 479001600" "cos_coeff 13 = 0"
  by (simp_all add: cos_coeff_def fact_numeral)

lemma sum14: "(\<Sum>m<(14::nat). f m) = f 0 + f 1 + f 2 + f 3 + f 4 + f 5 + f 6 + f 7 + f 8 + f 9 + f 10 + f 11 + f 12 + (f 13 :: real)"
  unfolding fourteen sum.lessThan_Suc by (simp add: numeral_eq_Suc)

lemma cos_coeff_sum: "(\<Sum>m<14. cos_coeff m * x ^ m) = cos_poly x"
  unfolding sum14 cos_coeffs cos_poly_def by simp

lemma cos_poly_bound: "\<bar>cos x - cos_poly x\<bar> \<le> \<bar>x\<bar> ^ 14 / 87178291200"
proof -
  obtain t where t: "cos x = (\<Sum>m<14. cos_coeff m * x ^ m) + cos (t + 1/2 * real 14 * pi) / fact 14 * x ^ 14"
    using Maclaurin_cos_expansion [of x 14] by blast
  have f: "fact 14 = (87178291200 :: real)"
    by (simp add: fact_numeral)
  have "\<bar>cos x - cos_poly x\<bar> = \<bar>cos (t + 1/2 * real 14 * pi)\<bar> * (\<bar>x\<bar> ^ 14 / 87178291200)"
    unfolding t cos_coeff_sum f by (simp add: abs_mult power_abs)
  also have "\<dots> \<le> 1 * (\<bar>x\<bar> ^ 14 / 87178291200)"
    by (intro mult_right_mono) simp_all
  finally show ?thesis by simp
qed

lemma cos_between:
  assumes "lo \<le> cos_poly x - \<bar>x\<bar> ^ 14 / 87178291200"
    and "cos_poly x + \<bar>x\<bar> ^ 14 / 87178291200 \<le> hi"
  shows "lo \<le> cos x \<and> cos x \<le> hi"
proof -
  define E where "E = \<bar>x\<bar> ^ 14 / 87178291200"
  define d where "d = cos x - cos_poly x"
  have "\<bar>d\<bar> \<le> E" unfolding d_def E_def by (rule cos_poly_bound)
  then have "d \<le> E" "- E \<le> d" by (simp_all add: abs_le_iff)
  then show ?thesis
    using assms unfolding d_def E_def by linarith
qed

lemma cos_157075: "0 < cos (157075 / 100000 :: real)"
proof -
  have "(1 / 100000 :: real) \<le> cos_poly (157075 / 100000) - \<bar>157075 / 100000\<bar> ^ 14 / 87178291200"
    and "cos_poly (157075 / 100000) + \<bar>157075 / 100000\<bar> ^ 14 / 87178291200 \<le> (1::real)"
    by (simp_all add: cos_poly_def power_divide)
  then show ?thesis using cos_between by fastforce
qed


lemma pi_gt_31415: "31415 / 10000 < pi"
proof (rule ccontr)
  assume "\<not> 31415 / 10000 < pi"
  then have "pi / 2 \<le> 157075 / 100000" by simp
  moreover have "(157075 / 100000 :: real) \<le> pi" using pi_ge_two by simp
  ultimately have "cos (157075 / 100000) \<le> cos (pi / 2)"
    by (intro cos_monotone_0_pi_le) simp_all
  then show False using cos_157075 by simp
qed




lemma sin_half_squared: "(sin (y / 2))\<^sup>2 = (1 - cos y) / 2" for y :: real
proof -
  define t where "t = y / 2"
  have y: "y = 2 * t" by (simp add: t_def)
  have "cos (2 * t) = 1 - 2 * (sin t)\<^sup>2" by (rule cos_double_sin)
  then have "(sin t)\<^sup>2 = (1 - cos (2 * t)) / 2" by simp
  then show ?thesis unfolding y [symmetric] by (simp add: t_def)
qed

lemma one_minus_two_hav:
  "1 - 2 * hav lat1 lon1 lat2 lon2 =
     cos ((lat2 - lat1) * (pi / 180)) -
     cos (lat1 * (pi / 180)) * cos (lat2 * (pi / 180)) * (1 - cos ((lon2 - lon1) * (pi / 180)))"
proof -
  define A where "A = cos ((lat2 - lat1) * (pi / 180))"
  define B where "B = cos (lat1 * (pi / 180)) * cos (lat2 * (pi / 180))"
  define D where "D = cos ((lon2 - lon1) * (pi / 180))"
  have "hav lat1 lon1 lat2 lon2 = (1 - A) / 2 + B * ((1 - D) / 2)"
    unfolding hav_def sin_half_squared A_def B_def D_def by (rule refl)
  then have "1 - 2 * hav lat1 lon1 lat2 lon2 = A - B * (1 - D)"
    by (simp add: field_simps)
  then show ?thesis
    unfolding A_def B_def D_def .
qed

lemma atan2_arccos:
  assumes "0 \<le> h" "h \<le> 1"
  shows "2 * Math_atan2 (sqrt h) (sqrt (1 - h)) = arccos (1 - 2 * h)"
proof (cases "h = 1")
  case True
  then show ?thesis by (simp add: Math_atan2_def)
next
  case False
  then have h1: "0 < 1 - h" using assms by simp
  define t where "t = sqrt h / sqrt (1 - h)"
  define th where "th = arctan t"
  have t0: "0 \<le> t" using assms h1 by (simp add: t_def)
  have at: "Math_atan2 (sqrt h) (sqrt (1 - h)) = th"
    using h1 by (simp add: Math_atan2_def t_def th_def)
  have "t\<^sup>2 = h / (1 - h)"
    using assms h1 by (simp add: t_def power_divide)
  then have "1 + t\<^sup>2 = 1 / (1 - h)"
    using h1 by (simp add: field_simps)
  moreover have "(cos th)\<^sup>2 = 1 / (1 + t\<^sup>2)"
  proof -
    have "0 < 1 + t\<^sup>2" by (simp add: add_pos_nonneg)
    then show ?thesis
      unfolding th_def cos_arctan by (simp add: power_divide)
  qed
  ultimately have c2: "(cos th)\<^sup>2 = 1 - h"
    by simp
  have "cos (2 * th) = 2 * (cos th)\<^sup>2 - 1" by (rule cos_double_cos)
  then have c: "cos (2 * th) = 1 - 2 * h" using c2 by simp
  have "0 \<le> th" using t0 by (simp add: th_def)
  moreover have "th < pi / 2" unfolding th_def by (rule arctan_ubound)
  ultimately have "0 \<le> 2 * th" "2 * th \<le> pi" by simp_all
  then have "arccos (cos (2 * th)) = 2 * th" by (rule arccos_cos)
  then show ?thesis unfolding at c by simp
qed











lemma calculateDistance_meridian:
  assumes "\<bar>lat2 - lat1\<bar> \<le> 180"
  shows "calculateDistance lat1 lon lat2 lon = Num (km_of_degrees \<bar>lat2 - lat1\<bar>)"
proof -
  define x where "x = \<bar>lat2 - lat1\<bar> * (pi / 180)"
  have x0: "0 \<le> x" by (simp add: x_def)
  have "\<bar>lat2 - lat1\<bar> * (pi / 180) \<le> 180 * (pi / 180)"
    using assms by (intro mult_right_mono) simp_all
  then have xpi: "x \<le> pi" by (simp add: x_def)
  define y where "y = (lat2 - lat1) * (pi / 180)"
  have "\<bar>y\<bar> = x"
    by (simp add: x_def y_def abs_mult)
  then have "cos y = cos x"
    using cos_abs_real [of y] by simp
  then have "1 - 2 * hav lat1 lon lat2 lon = cos x"
    unfolding one_minus_two_hav y_def [symmetric] by simp
  then have a: "arccos (1 - 2 * hav lat1 lon lat2 lon) = x"
    using arccos_cos [OF x0 xpi] by simp
  show ?thesis
    unfolding calculateDistance_hav atan2_arccos [OF hav_lower hav_upper] a
    by (simp add: km_of_degrees_def x_def)
qed

lemma km_of_degrees_compare [simp]:
  "km_of_degrees 0 = 0"
  "km_of_degrees a \<le> km_of_degrees b \<longleftrightarrow> a \<le> b"
  "0 < km_of_degrees a - km_of_degrees b \<longleftrightarrow> b < a"
  "km_of_degrees a \<le> 0 \<longleftrightarrow> a \<le> 0"
  "0 < km_of_degrees a \<longleftrightarrow> 0 < a"
proof -
  have k: "0 < 6371 * (pi / 180)" by simp
  have e: "km_of_degrees y = y * (6371 * (pi / 180))" for y
    by (simp add: km_of_degrees_def)
  show "km_of_degrees 0 = 0" by (simp add: e)
  show "km_of_degrees a \<le> km_of_degrees b \<longleftrightarrow> a \<le> b"
    unfolding e using k by (rule mult_le_cancel_right_pos)
  have "0 < km_of_degrees a - km_of_degrees b \<longleftrightarrow> km_of_degrees b < km_of_degrees a"
    by linarith
  also have "\<dots> \<longleftrightarrow> b < a"
    unfolding e using k by (rule mult_less_cancel_right_pos)
  finally show "0 < km_of_degrees a - km_of_degrees b \<longleftrightarrow> b < a" .
  have le: "km_of_degrees c \<le> km_of_degrees d \<longleftrightarrow> c \<le> d" for c d
    unfolding e using k by (rule mult_le_cancel_right_pos)
  have z: "km_of_degrees 0 = 0" by (simp add: e)
  show "km_of_degrees a \<le> 0 \<longleftrightarrow> a \<le> 0"
    using le [of a 0] unfolding z .
  show "0 < km_of_degrees a \<longleftrightarrow> 0 < a"
    using le [of a 0] unfolding z by linarith
qed

lemma km_of_degrees_ten [simp]:
  "km_of_degrees (1 / 20) \<le> 10"
  "\<not> km_of_degrees 1 \<le> 10"
  "\<not> km_of_degrees (39 / 20) \<le> 10"
proof -
  have lo: "3 < pi" using pi_gt_31415 by linarith
  have hi: "pi < 4" by (rule pi_less_4)
  have "km_of_degrees (1 / 20) = pi * (6371 / 3600)"
    by (simp add: km_of_degrees_def)
  also have "\<dots> \<le> 4 * (6371 / 3600)"
    using hi by (intro mult_right_mono) simp_all
  finally show "km_of_degrees (1 / 20) \<le> 10" by simp
  have "10 < 3 * (6371 / 180 :: real)" by simp
  also have "\<dots> \<le> pi * (6371 / 180)"
    using lo by (intro mult_right_mono) simp_all
  also have "\<dots> = km_of_degrees 1"
    by (simp add: km_of_degrees_def)
  finally have one: "10 < km_of_degrees 1" .
  then show "\<not> km_of_degrees 1 \<le> 10" by simp
  have "km_of_degrees 1 \<le> km_of_degrees (39 / 20)"
    by simp
  with one show "\<not> km_of_degrees (39 / 20) \<le> 10" by linarith
qed

lemma sample_distances [simp]:
  "calculateDistance 0 0 0 0 = Num 0"
  "calculateDistance 0 0 (1 / 20) 0 = Num (km_of_degrees (1 / 20))"
  "calculateDistance 0 0 1 0 = Num (km_of_degrees 1)"
  "calculateDistance (1 / 20) 0 0 0 = Num (km_of_degrees (1 / 20))"
  "calculateDistance (1 / 20) 0 2 0 = Num (km_of_degrees (39 / 20))"
  using calculateDistance_meridian [of 0 0 0] calculateDistance_meridian [of "1 / 20" 0 0]
    calculateDistance_meridian [of 1 0 0] calculateDistance_meridian [of 0 "1 / 20" 0]
    calculateDistance_meridian [of 2 "1 / 20" 0]
  by simp_all


section \<open>Hard failure when the request does not exist\<close>

text \<open>
  Claim C7. When no row of \<open>service_requests\<close> has the requested identifier,
  \<open>assign-provider\<close> answers with status 400 and the body
  \<open>{ success: false, error: 'Service request not found' }\<close>, which is neither the
  no-match body nor the success body, and the store is left exactly as it was: no
  request is updated, no notification and no history row is inserted.
\<close>

theorem request_not_found_hard_failure:
  assumes "\<forall>r \<in> set (service_requests db). sr_id r \<noteq> requestId"
  shows "assign_provider e db requestId =
           (\<lparr>status = 400, body = [(''success'', JBool False), (''error'', JStr ''Service request not found'')]\<rparr>, db)
         \<and> (\<forall>msg rid. fst (assign_provider e db requestId) \<noteq> no_match msg rid)
         \<and> (\<forall>e' p rid. fst (assign_provider e db requestId) \<noteq> assigned_response e' p rid)"
proof -
  have "filter (\<lambda>r. sr_id r = requestId) (service_requests db) = []"
    using assms by (simp add: filter_empty_conv)
  then have "select_request e db requestId = None"
    by (simp add: select_request_def single_def)
  then have "assign_provider e db requestId = (hard_failure ''Service request not found'', db)"
    by (simp add: assign_provider_def)
  then show ?thesis
    by (simp add: hard_failure_def no_match_def assigned_response_def)
qed

theorem request_not_found_hard_failure_witness:
  "assign_provider env0 (town_with ''c1'') ''r2'' =
     (\<lparr>status = 400, body = [(''success'', JBool False), (''error'', JStr ''Service request not found'')]\<rparr>,
      town_with ''c1'')"
proof -
  have h: "\<forall>r \<in> set (service_requests (town_with ''c1'')). sr_id r \<noteq> ''r2''"
    by (simp add: town_with_def insert_service_request_def sample_request_def town_def)
  show ?thesis
    using request_not_found_hard_failure [OF h, of env0] by simp
qed

section \<open>A provider who is switched off\<close>

text \<open>
  Claim C9. When the provider profile of \<open>userId\<close> exists and its \<open>is_available\<close>
  is false, \<open>assign-pending-requests\<close> answers with status 200 and the message
  \<open>'Provider is not available'\<close>, and the store is left exactly as it was.
\<close>

theorem unavailable_provider_is_skipped:
  assumes "userId \<noteq> []"
    and "\<not> fails e Select_provider_profiles"
    and "filter (\<lambda>pp. pp_user_id pp = userId) (provider_profiles db) = [providerProfile]"
    and "pp_is_available providerProfile = Some False"
  shows "assign_pending_requests e db (Some userId) =
           (\<lparr>status = 200, body = [(''message'', JStr ''Provider is not available'')]\<rparr>, db)"
  using assms by (simp add: assign_pending_requests_def single_def)

theorem unavailable_provider_is_skipped_witness:
  "assign_pending_requests env0 (town_with ''c1'') (Some ''v5'') =
     (\<lparr>status = 200, body = [(''message'', JStr ''Provider is not available'')]\<rparr>, town_with ''c1'')"
proof -
  let ?pp = "\<lparr>pp_id = ''p5'', pp_user_id = ''v5'', pp_service_area_radius_km = Some 10, pp_is_available = Some False\<rparr>"
  have a: "''v5'' \<noteq> []" by simp
  have b: "\<not> fails env0 Select_provider_profiles" by (simp add: env0_def)
  have c: "filter (\<lambda>pp. pp_user_id pp = ''v5'') (provider_profiles (town_with ''c1'')) = [?pp]"
    by (simp add: town_with_def insert_service_request_def town_def)
  have d: "pp_is_available ?pp = Some False" by simp
  show ?thesis
    by (rule unavailable_provider_is_skipped [OF a b c d])
qed

section \<open>The sort and the ranking\<close>

lemma mset_insert_sorted: "mset (insert_sorted c x ys) = add_mset x (mset ys)"
  by (induction ys) auto

lemma mset_Array_sort: "mset (Array_sort c xs) = mset xs"
  by (induction xs) (auto simp: mset_insert_sorted)

lemma set_Array_sort: "set (Array_sort c xs) = set xs"
  by (metis mset_Array_sort set_mset_mset)

lemma Array_sort_Nil_iff: "Array_sort c xs = [] \<longleftrightarrow> xs = []"
  by (metis mset_Array_sort mset_zero_iff)

lemma in_radius_Num: "in_radius p \<Longrightarrow> \<exists>d. distance p = Num d"
  by (cases "distance p"; cases "serviceRadius p") (auto simp: in_radius_def)

lemma insert_sorted_sorted:
  assumes "\<exists>d. distance x = Num d"
    and "\<forall>y \<in> set ys. \<exists>d. distance y = Num d"
    and "sorted_wrt (\<lambda>a b. number_le (distance a) (distance b)) ys"
  shows "sorted_wrt (\<lambda>a b. number_le (distance a) (distance b)) (insert_sorted by_distance x ys)"
  using assms
proof (induction ys)
  case Nil
  then show ?case by simp
next
  case (Cons y ys)
  obtain dx where dx: "distance x = Num dx" using Cons.prems(1) by blast
  obtain dy where dy: "distance y = Num dy" using Cons.prems(2) by auto
  have cmp: "SortCompare by_distance x y = dx - dy"
    by (simp add: SortCompare_def by_distance_def dx dy)
  show ?case
  proof (cases "0 < dx - dy")
    case True
    have tail: "sorted_wrt (\<lambda>a b. number_le (distance a) (distance b)) (insert_sorted by_distance x ys)"
      using Cons by simp
    have "\<forall>z \<in> set (insert_sorted by_distance x ys). number_le (distance y) (distance z)"
    proof
      fix z assume "z \<in> set (insert_sorted by_distance x ys)"
      then have "z = x \<or> z \<in> set ys"
        by (metis mset_insert_sorted set_mset_mset set_mset_add_mset_insert insertE)
      then show "number_le (distance y) (distance z)"
        using True Cons.prems(3) by (auto simp: dx dy)
    qed
    then show ?thesis using True tail by (simp add: cmp)
  next
    case False
    have "\<forall>z \<in> set ys. number_le (distance x) (distance z)"
    proof
      fix z assume z: "z \<in> set ys"
      then obtain dz where dz: "distance z = Num dz" using Cons.prems(2) by auto
      have "number_le (distance y) (distance z)" using Cons.prems(3) z by simp
      then show "number_le (distance x) (distance z)" using False by (simp add: dx dy dz)
    qed
    then show ?thesis using False Cons.prems(3) by (simp add: cmp dx dy)
  qed
qed

lemma Array_sort_sorted:
  assumes "\<forall>y \<in> set xs. \<exists>d. distance y = Num d"
  shows "sorted_wrt (\<lambda>a b. number_le (distance a) (distance b)) (Array_sort by_distance xs)"
  using assms
proof (induction xs)
  case Nil
  then show ?case by simp
next
  case (Cons x xs)
  then show ?case
    by (simp add: insert_sorted_sorted set_Array_sort)
qed

lemma providersWithDistance_sorted:
  "sorted_wrt (\<lambda>a b. number_le (distance a) (distance b)) (providersWithDistance request pps profs)"
  unfolding providersWithDistance_def
  by (rule Array_sort_sorted) (auto dest: in_radius_Num)

lemma providersWithDistance_mset:
  "mset (providersWithDistance request pps profs) =
     filter_mset in_radius (mset (List.map_filter (to_candidate request profs) pps))"
  by (simp add: providersWithDistance_def mset_Array_sort)

lemma providersWithDistance_Nil_iff:
  "providersWithDistance request pps profs = [] \<longleftrightarrow>
     (\<forall>pp \<in> set pps. case to_candidate request profs pp of None \<Rightarrow> True | Some p \<Rightarrow> \<not> in_radius p)"
  by (auto simp: providersWithDistance_def Array_sort_Nil_iff filter_empty_conv map_filter_def
           split: option.splits)

section \<open>The two no-match outcomes\<close>

text \<open>
  Claim C4. For a request that is found: when no membership row names its category,
  \<open>assign-provider\<close> answers 200 with \<open>success: false\<close> and the message
  \<open>'No providers available for this category'\<close> and leaves the store as it was, so
  no admin is notified. When membership rows exist but no available provider with
  coordinates is within their radius, it answers 200 with \<open>success: false\<close> and the
  different message \<open>'No available providers found in service area'\<close>, and the only
  change to the store is one \<open>warning\<close> notification per row of \<open>user_roles\<close> with
  role \<open>admin\<close>, whose message ends in the request identifier and whose
  \<open>related_request_id\<close> is that identifier.
\<close>

theorem no_match_outcomes:
  fixes e :: env and db :: database and requestId :: uuid and request :: service_request
  defines "members \<equiv> filter (\<lambda>pc. pc_category_id pc = sr_category_id request) (provider_categories db)"
    and "available \<equiv> filter (\<lambda>pp. pp_id pp \<in> set (map pc_provider_profile_id
                 (filter (\<lambda>pc. pc_category_id pc = sr_category_id request) (provider_categories db))) \<and>
               pp_is_available pp = Some True) (provider_profiles db)"
  defines "profs \<equiv> filter (\<lambda>p. pf_id p \<in> set (map pp_user_id available)) (profiles db)"
  assumes found: "filter (\<lambda>r. sr_id r = requestId) (service_requests db) = [request]"
    and sel: "\<not> fails e Select_service_requests" "\<not> fails e Select_provider_categories"
  shows "(members = [] \<longrightarrow>
            assign_provider e db requestId =
              (\<lparr>status = 200,
                body = [(''success'', JBool False),
                        (''message'', JStr ''No providers available for this category''),
                        (''requestId'', JStr requestId)]\<rparr>, db))
       \<and> (members \<noteq> [] \<and>
          (\<forall>pp \<in> set available.
              case to_candidate request profs pp of
                None \<Rightarrow> True
              | Some p \<Rightarrow> \<not> number_le (distance p) (serviceRadius p)) \<and>
          \<not> fails e Select_provider_profiles \<and> \<not> fails e Select_profiles \<and>
          \<not> fails e Select_user_roles \<and> \<not> fails e (Insert_admin_notifications requestId) \<longrightarrow>
            assign_provider e db requestId =
              (\<lparr>status = 200,
                body = [(''success'', JBool False),
                        (''message'', JStr ''No available providers found in service area''),
                        (''requestId'', JStr requestId)]\<rparr>,
               db\<lparr>notifications := notifications db @
                    map (\<lambda>a. \<lparr>n_user_id = ur_user_id a,
                               n_title = ''Assignment Failed'',
                               n_message = ''No available provider found for request '' @ requestId,
                               n_type = ''warning'',
                               n_related_request_id = requestId\<rparr>)
                        (filter (\<lambda>u. ur_role u = Admin) (user_roles db))\<rparr>))"
proof -
  have req: "select_request e db requestId = Some request"
    using found sel(1) by (simp add: select_request_def single_def)
  have a: "members = [] \<longrightarrow>
            assign_provider e db requestId =
              (no_match ''No providers available for this category'' requestId, db)"
    using req sel(2) by (simp add: assign_provider_def members_def)
  have b: "assign_provider e db requestId =
             (no_match ''No available providers found in service area'' requestId,
              notify_admins e requestId db)"
    if "members \<noteq> []" "providersWithDistance request available profs = []"
       "\<not> fails e Select_provider_profiles" "\<not> fails e Select_profiles"
    using that req sel(2)
    by (simp add: assign_provider_def members_def available_def profs_def Let_def)
  have c: "notify_admins e requestId db =
             db\<lparr>notifications := notifications db @
                  adminNotifications requestId (filter (\<lambda>u. ur_role u = Admin) (user_roles db))\<rparr>"
    if "\<not> fails e Select_user_roles" "\<not> fails e (Insert_admin_notifications requestId)"
    using that
    by (simp add: notify_admins_def Let_def insert_notifications_def adminNotifications_def)
  have d: "providersWithDistance request available profs = []"
    if "\<forall>pp \<in> set available.
              case to_candidate request profs pp of
                None \<Rightarrow> True
              | Some p \<Rightarrow> \<not> number_le (distance p) (serviceRadius p)"
    using that unfolding providersWithDistance_Nil_iff in_radius_def .
  show ?thesis
    unfolding no_match_def [symmetric] adminNotifications_def [symmetric]
  proof (intro conjI impI)
    assume "members = []"
    with a show "assign_provider e db requestId =
        (no_match ''No providers available for this category'' requestId, db)"
      by (rule mp)
  next
    assume h: "members \<noteq> [] \<and>
          (\<forall>pp \<in> set available.
              case to_candidate request profs pp of
                None \<Rightarrow> True
              | Some p \<Rightarrow> \<not> number_le (distance p) (serviceRadius p)) \<and>
          \<not> fails e Select_provider_profiles \<and> \<not> fails e Select_profiles \<and>
          \<not> fails e Select_user_roles \<and> \<not> fails e (Insert_admin_notifications requestId)"
    have empty: "providersWithDistance request available profs = []"
      using h by (intro d) blast
    have "assign_provider e db requestId =
             (no_match ''No available providers found in service area'' requestId,
              notify_admins e requestId db)"
      using h empty by (intro b) blast+
    moreover have "notify_admins e requestId db =
             db\<lparr>notifications := notifications db @
                  adminNotifications requestId (filter (\<lambda>u. ur_role u = Admin) (user_roles db))\<rparr>"
      using h by (intro c) blast+
    ultimately show "assign_provider e db requestId =
        (no_match ''No available providers found in service area'' requestId,
         db\<lparr>notifications := notifications db @
                  adminNotifications requestId (filter (\<lambda>u. ur_role u = Admin) (user_roles db))\<rparr>)"
      by (simp only:)
  qed
qed

lemmas town_defs = town_with_def insert_service_request_def town_def sample_request_def
  log_request_status_change_def

theorem no_match_outcomes_witness:
  "assign_provider env0 (town_with ''c2'') ''r1'' =
     (\<lparr>status = 200,
       body = [(''success'', JBool False),
               (''message'', JStr ''No providers available for this category''),
               (''requestId'', JStr ''r1'')]\<rparr>, town_with ''c2'')
   \<and> assign_provider env0 (town_with ''c3'') ''r1'' =
     (\<lparr>status = 200,
       body = [(''success'', JBool False),
               (''message'', JStr ''No available providers found in service area''),
               (''requestId'', JStr ''r1'')]\<rparr>,
      (town_with ''c3'')\<lparr>notifications :=
         [\<lparr>n_user_id = ''a1'', n_title = ''Assignment Failed'',
           n_message = ''No available provider found for request r1'',
           n_type = ''warning'', n_related_request_id = ''r1''\<rparr>]\<rparr>)"
proof -
  have s: "\<not> fails env0 Select_service_requests" "\<not> fails env0 Select_provider_categories"
    by (simp_all add: env0_def)
  have f2: "filter (\<lambda>r. sr_id r = ''r1'') (service_requests (town_with ''c2'')) = [sample_request ''r1'' ''u1'' ''c2'']"
    by (simp add: town_defs)
  have f3: "filter (\<lambda>r. sr_id r = ''r1'') (service_requests (town_with ''c3'')) = [sample_request ''r1'' ''u1'' ''c3'']"
    by (simp add: town_defs)
  have "assign_provider env0 (town_with ''c2'') ''r1'' =
     (\<lparr>status = 200,
       body = [(''success'', JBool False),
               (''message'', JStr ''No providers available for this category''),
               (''requestId'', JStr ''r1'')]\<rparr>, town_with ''c2'')"
    using no_match_outcomes [OF f2 s] by (simp add: town_defs)
  moreover have "assign_provider env0 (town_with ''c3'') ''r1'' =
     (\<lparr>status = 200,
       body = [(''success'', JBool False),
               (''message'', JStr ''No available providers found in service area''),
               (''requestId'', JStr ''r1'')]\<rparr>,
      (town_with ''c3'')\<lparr>notifications :=
         [\<lparr>n_user_id = ''a1'', n_title = ''Assignment Failed'',
           n_message = ''No available provider found for request r1'',
           n_type = ''warning'', n_related_request_id = ''r1''\<rparr>]\<rparr>)"
    using no_match_outcomes [OF f3 s]
    by (simp add: town_defs env0_def to_candidate_def parseFloat_def)
  ultimately show ?thesis by simp
qed

lemma update_row_fields [simp]:
  "sr_id (update_row now st r) = sr_id (st r)"
  "sr_provider_id (update_row now st r) = sr_provider_id (st r)"
  "sr_status (update_row now st r) = sr_status (st r)"
  "sr_resident_id (update_row now st r) = sr_resident_id (st r)"
  "sr_category_id (update_row now st r) = sr_category_id (st r)"
  by (simp_all add: update_row_def update_updated_at_column_def update_request_timestamps_def)

lemma insert_notification_tables [simp]:
  "service_requests (insert_notification e n db) = service_requests db"
  "request_status_history (insert_notification e n db) = request_status_history db"
  "provider_profiles (insert_notification e n db) = provider_profiles db"
  by (simp_all add: insert_notification_def insert_notifications_def)

lemma notify_assignment_tables [simp]:
  "service_requests (notify_assignment e request rid p db) = service_requests db"
  "request_status_history (notify_assignment e request rid p db) = request_status_history db"
  by (simp_all add: notify_assignment_def Let_def split: option.splits)

lemma service_requests_assign_update:
  "service_requests (assign_update e rid pid db) =
     map (\<lambda>r. if sr_id r = rid
               then update_row (pg_now e rid)
                      (\<lambda>r. r\<lparr>sr_provider_id := Some pid, sr_status := assigned,
                              sr_assigned_at := Some (date_now e rid)\<rparr>) r
               else r) (service_requests db)"
  by (simp add: assign_update_def update_service_requests_def)

lemma number_le_refl: "number_le (Num d) (Num d)"
  by simp

lemma sorted_head_least:
  assumes "sorted_wrt (\<lambda>a b. number_le (distance a) (distance b)) (p # ps)"
    and "\<exists>d. distance p = Num d"
  shows "\<forall>c \<in> set (p # ps). number_le (distance p) (distance c)"
  using assms by auto

lemma providersWithDistance_in_radius:
  "c \<in> set (providersWithDistance request pps profs) \<Longrightarrow> in_radius c"
  by (simp add: providersWithDistance_def set_Array_sort)

lemma filter_map_update:
  assumes "\<And>r. P r \<Longrightarrow> P (f r)"
  shows "filter P (map (\<lambda>r. if P r then f r else r) xs) = map f (filter P xs)"
  using assms by (induction xs) auto

section \<open>Eligibility, ranking and the committed provider\<close>

text \<open>
  Claim C3. For every request and every list of provider and profile rows, the ranking
  holds exactly the candidates whose distance is at most their service radius (as a
  multiset, so nothing is lost or doubled); a candidate whose distance equals its radius
  is kept; the ranking is in non-decreasing order of distance. When the handler reaches
  the update, it answers with the first element of the ranking and writes that
  provider into the request, and no element of the ranking is nearer than it.
\<close>

theorem ranking_nearest_eligible:
  fixes e :: env and db :: database and requestId :: uuid and request request' :: service_request
    and providerProfiles :: "provider_profile list" and profs' :: "profile list"
  defines "available \<equiv> filter (\<lambda>pp. pp_id pp \<in> set (map pc_provider_profile_id
                 (filter (\<lambda>pc. pc_category_id pc = sr_category_id request) (provider_categories db))) \<and>
               pp_is_available pp = Some True) (provider_profiles db)"
  defines "profs \<equiv> filter (\<lambda>p. pf_id p \<in> set (map pp_user_id available)) (profiles db)"
  shows "mset (providersWithDistance request' providerProfiles profs') =
           filter_mset (\<lambda>p. number_le (distance p) (serviceRadius p))
             (mset (List.map_filter (to_candidate request' profs') providerProfiles))
       \<and> (\<forall>p \<in> set (List.map_filter (to_candidate request' profs') providerProfiles).
            (\<exists>d. distance p = Num d \<and> serviceRadius p = Num d) \<longrightarrow>
            p \<in> set (providersWithDistance request' providerProfiles profs'))
       \<and> sorted_wrt (\<lambda>a b. number_le (distance a) (distance b))
            (providersWithDistance request' providerProfiles profs')
       \<and> (filter (\<lambda>r. sr_id r = requestId) (service_requests db) = [request] \<and>
          \<not> fails e Select_service_requests \<and> \<not> fails e Select_provider_categories \<and>
          \<not> fails e Select_provider_profiles \<and> \<not> fails e Select_profiles \<and>
          \<not> fails e (Update_service_requests requestId) \<and>
          providersWithDistance request available profs = p # ps \<longrightarrow>
            fst (assign_provider e db requestId) = assigned_response e p requestId \<and>
            filter (\<lambda>r. sr_id r = requestId) (service_requests (snd (assign_provider e db requestId))) =
              [request\<lparr>sr_provider_id := Some (providerId p), sr_status := assigned,
                       sr_assigned_at := Some (date_now e requestId),
                       sr_updated_at := pg_now e requestId\<rparr>] \<and>
            (\<forall>c \<in> set (p # ps). number_le (distance p) (distance c)))"
proof (intro conjI impI)
  show "mset (providersWithDistance request' providerProfiles profs') =
           filter_mset (\<lambda>p. number_le (distance p) (serviceRadius p))
             (mset (List.map_filter (to_candidate request' profs') providerProfiles))"
    using providersWithDistance_mset [of request' providerProfiles profs']
    by (simp add: in_radius_def [abs_def])
  show "\<forall>p \<in> set (List.map_filter (to_candidate request' profs') providerProfiles).
            (\<exists>d. distance p = Num d \<and> serviceRadius p = Num d) \<longrightarrow>
            p \<in> set (providersWithDistance request' providerProfiles profs')"
    by (auto simp: providersWithDistance_def set_Array_sort in_radius_def)
  show "sorted_wrt (\<lambda>a b. number_le (distance a) (distance b))
            (providersWithDistance request' providerProfiles profs')"
    by (rule providersWithDistance_sorted)
next
  assume h: "filter (\<lambda>r. sr_id r = requestId) (service_requests db) = [request] \<and>
          \<not> fails e Select_service_requests \<and> \<not> fails e Select_provider_categories \<and>
          \<not> fails e Select_provider_profiles \<and> \<not> fails e Select_profiles \<and>
          \<not> fails e (Update_service_requests requestId) \<and>
          providersWithDistance request available profs = p # ps"
  have req: "select_request e db requestId = Some request"
    using h by (simp add: select_request_def single_def)
  have ranked: "providersWithDistance request available profs = p # ps"
    using h by blast
  have members: "filter (\<lambda>pc. pc_category_id pc = sr_category_id request) (provider_categories db) \<noteq> []"
  proof
    assume "filter (\<lambda>pc. pc_category_id pc = sr_category_id request) (provider_categories db) = []"
    then have "available = []" by (simp add: available_def)
    then have "providersWithDistance request available profs = []"
      by (simp add: providersWithDistance_def map_filter_simps)
    with ranked show False by simp
  qed
  have run: "assign_provider e db requestId =
               (assigned_response e p requestId,
                notify_assignment e request requestId p (assign_update e requestId (providerId p) db))"
    using h req members ranked
    by (simp add: assign_provider_def Let_def available_def profs_def)
  show "fst (assign_provider e db requestId) = assigned_response e p requestId"
    by (simp add: run)
  have "filter (\<lambda>r. sr_id r = requestId) (service_requests (snd (assign_provider e db requestId))) =
          map (update_row (pg_now e requestId)
                 (\<lambda>r. r\<lparr>sr_provider_id := Some (providerId p), sr_status := assigned,
                         sr_assigned_at := Some (date_now e requestId)\<rparr>))
              (filter (\<lambda>r. sr_id r = requestId) (service_requests db))"
    unfolding run snd_conv notify_assignment_tables service_requests_assign_update
    by (rule filter_map_update) simp
  then show "filter (\<lambda>r. sr_id r = requestId) (service_requests (snd (assign_provider e db requestId))) =
              [request\<lparr>sr_provider_id := Some (providerId p), sr_status := assigned,
                       sr_assigned_at := Some (date_now e requestId),
                       sr_updated_at := pg_now e requestId\<rparr>]"
    using h by (simp add: update_row_def update_updated_at_column_def update_request_timestamps_def)
  have "in_radius p"
    using providersWithDistance_in_radius [of p request available profs] ranked by simp
  then have "\<exists>d. distance p = Num d" by (rule in_radius_Num)
  moreover have "sorted_wrt (\<lambda>a b. number_le (distance a) (distance b)) (p # ps)"
    using providersWithDistance_sorted [of request available profs] ranked by simp
  ultimately show "\<forall>c \<in> set (p # ps). number_le (distance p) (distance c)"
    by (rule sorted_head_least [rotated])
qed

lemmas rank_defs = providersWithDistance_def map_filter_def to_candidate_def
  parseFloat_def in_radius_def by_distance_def SortCompare_def

theorem ranking_nearest_eligible_witness:
  "fst (assign_provider env0 (town_with ''c1'') ''r1'') =
     assigned_response env0
       \<lparr>providerId = ''p2'', providerName = ''Bala'', distance = Num 0, serviceRadius = Num 0\<rparr> ''r1''
   \<and> filter (\<lambda>r. sr_id r = ''r1'') (service_requests (snd (assign_provider env0 (town_with ''c1'') ''r1''))) =
       [(sample_request ''r1'' ''u1'' ''c1'')\<lparr>sr_provider_id := Some ''p2'', sr_status := assigned,
           sr_assigned_at := Some 9, sr_updated_at := 9\<rparr>]
   \<and> providersWithDistance (sample_request ''r1'' ''u1'' ''c1'')
       (filter (\<lambda>pp. pp_is_available pp = Some True) (provider_profiles town)) (profiles town) =
       [\<lparr>providerId = ''p2'', providerName = ''Bala'', distance = Num 0, serviceRadius = Num 0\<rparr>,
        \<lparr>providerId = ''p1'', providerName = ''Asha'', distance = Num (km_of_degrees (1 / 20)),
          serviceRadius = Num 10\<rparr>]"
proof -
  let ?request = "sample_request ''r1'' ''u1'' ''c1''"
  let ?p = "\<lparr>providerId = ''p2'', providerName = ''Bala'', distance = Num 0, serviceRadius = Num 0\<rparr>"
  let ?q = "\<lparr>providerId = ''p1'', providerName = ''Asha'', distance = Num (km_of_degrees (1 / 20)), serviceRadius = Num 10\<rparr>"
  have found: "filter (\<lambda>r. sr_id r = ''r1'') (service_requests (town_with ''c1'')) = [?request]"
    by (simp add: town_defs)
  have ranked: "providersWithDistance ?request
     (filter (\<lambda>pp. pp_id pp \<in> set (map pc_provider_profile_id
                 (filter (\<lambda>pc. pc_category_id pc = sr_category_id ?request) (provider_categories (town_with ''c1'')))) \<and>
               pp_is_available pp = Some True) (provider_profiles (town_with ''c1'')))
     (filter (\<lambda>p. pf_id p \<in> set (map pp_user_id
        (filter (\<lambda>pp. pp_id pp \<in> set (map pc_provider_profile_id
                 (filter (\<lambda>pc. pc_category_id pc = sr_category_id ?request) (provider_categories (town_with ''c1'')))) \<and>
               pp_is_available pp = Some True) (provider_profiles (town_with ''c1''))))) (profiles (town_with ''c1'')))
     = [?p, ?q]"
    by (simp add: town_defs rank_defs)
  have ok: "\<not> fails env0 c" for c by (simp add: env0_def)
  have "fst (assign_provider env0 (town_with ''c1'') ''r1'') = assigned_response env0 ?p ''r1'' \<and>
        filter (\<lambda>r. sr_id r = ''r1'') (service_requests (snd (assign_provider env0 (town_with ''c1'') ''r1''))) =
          [?request\<lparr>sr_provider_id := Some (providerId ?p), sr_status := assigned,
                    sr_assigned_at := Some (date_now env0 ''r1''),
                    sr_updated_at := pg_now env0 ''r1''\<rparr>] \<and>
        (\<forall>c \<in> set [?p, ?q]. number_le (distance ?p) (distance c))"
    using ranking_nearest_eligible [where e = env0 and db = "town_with ''c1''" and requestId = "''r1''"
        and request = ?request and p = ?p and ps = "[?q]", THEN conjunct2, THEN conjunct2, THEN conjunct2]
      found ranked ok
    by blast
  moreover have "providersWithDistance ?request
       (filter (\<lambda>pp. pp_is_available pp = Some True) (provider_profiles town)) (profiles town) = [?p, ?q]"
    by (simp add: town_defs rank_defs)
  ultimately show ?thesis
    by (simp add: env0_def)
qed

section \<open>The batch loop\<close>

lemma assign_loop_fold:
  "assign_loop e userId pid la lo rad reqs (db, n) =
     (fold (assign_step e userId pid)
        (filter (\<lambda>r. within_range la lo rad r \<and> \<not> fails e (Update_service_requests (sr_id r))) reqs) db,
      n + length (filter (\<lambda>r. within_range la lo rad r \<and> \<not> fails e (Update_service_requests (sr_id r))) reqs))"
  by (induction reqs arbitrary: db n) simp_all

lemma notifications_batch_update [simp]:
  "notifications (batch_update e rid pid db) = notifications db"
  by (simp add: batch_update_def update_service_requests_def)






section \<open>The default service radius\<close>

text \<open>
  Claim C10. When the provider profile has no \<open>service_area_radius_km\<close>, the batch
  handler uses the radius 10: the requests it assigns are exactly the fetched pending
  requests at a distance of at most 10 km whose update did not fail.
\<close>

theorem null_radius_defaults_to_ten:
  fixes e :: env and db :: database and userId :: uuid
    and providerProfile :: provider_profile and providerProfileData :: profile
  defines "categoryIds \<equiv> map pc_category_id
             (filter (\<lambda>pc. pc_provider_profile_id pc = pp_id providerProfile) (provider_categories db))"
  defines "pendingRequests \<equiv>
             filter (\<lambda>r. sr_status r = pending \<and> sr_category_id r \<in> set categoryIds \<and> sr_provider_id r = None)
                    (service_requests db)"
  defines "within10 \<equiv>
             filter (\<lambda>r. number_le
                            (calculateDistance_num
                               (parseFloat (pf_location_lat providerProfileData))
                               (parseFloat (pf_location_lng providerProfileData))
                               (Num (sr_location_lat r)) (Num (sr_location_lng r)))
                            (Num 10) \<and>
                         \<not> fails e (Update_service_requests (sr_id r)))
                    pendingRequests"
  assumes null: "pp_service_area_radius_km providerProfile = None"
    and user: "userId \<noteq> []"
    and prof: "filter (\<lambda>pp. pp_user_id pp = userId) (provider_profiles db) = [providerProfile]"
    and avail: "pp_is_available providerProfile = Some True"
    and loc: "filter (\<lambda>p. pf_id p = userId) (profiles db) = [providerProfileData]"
    and cats: "categoryIds \<noteq> []"
    and pend: "pendingRequests \<noteq> []"
    and sel: "\<not> fails e Select_provider_profiles" "\<not> fails e Select_profiles"
             "\<not> fails e Select_provider_categories" "\<not> fails e Select_service_requests"
  shows "serviceRadius_of providerProfile = Num 10
       \<and> assign_pending_requests e db (Some userId) =
           (\<lparr>status = 200,
             body = [(''success'', JBool True),
                     (''message'', JStr (''Assigned '' @ string_of_nat (length within10) @ '' pending request(s)'')),
                     (''assignedCount'', JNat (length within10))]\<rparr>,
            fold (assign_step e userId (pp_id providerProfile)) within10 db)"
proof -
  have ten: "serviceRadius_of providerProfile = Num 10"
    using null by (simp add: serviceRadius_of_def)
  have cats': "filter (\<lambda>pc. pc_provider_profile_id pc = pp_id providerProfile) (provider_categories db) \<noteq> []"
    using cats by (auto simp: categoryIds_def)
  have "assign_pending_requests e db (Some userId) =
          (batch_response (length within10), fold (assign_step e userId (pp_id providerProfile)) within10 db)"
    using user prof avail loc cats' pend sel
    by (simp add: assign_pending_requests_def single_def Let_def assign_loop_fold
        categoryIds_def pendingRequests_def within10_def within_range_def ten)
  then show ?thesis
    using ten by (simp add: batch_response_def)
qed

theorem null_radius_defaults_to_ten_witness:
  "fst (assign_pending_requests env0 town_busy (Some ''v4'')) =
     \<lparr>status = 200,
       body = [(''success'', JBool True),
               (''message'', JStr ''Assigned 3 pending request(s)''),
               (''assignedCount'', JNat 3)]\<rparr>
   \<and> map (\<lambda>r. (sr_id r, sr_provider_id r)) (service_requests (snd (assign_pending_requests env0 town_busy (Some ''v4'')))) =
     [(''r1'', Some ''p4''), (''r2'', Some ''p4''), (''r3'', Some ''p4''), (''r4'', None)]"
proof -
  let ?pp = "\<lparr>pp_id = ''p4'', pp_user_id = ''v4'', pp_service_area_radius_km = None, pp_is_available = Some True\<rparr>"
  let ?pd = "\<lparr>pf_id = ''v4'', pf_name = ''Dev'', pf_location_lat = Some (1 / 20), pf_location_lng = Some 0\<rparr>"
  let ?r1 = "sample_request ''r1'' ''u1'' ''c1''"
  let ?r2 = "sample_request ''r2'' ''u2'' ''c1''"
  let ?r3 = "sample_request ''r3'' ''u1'' ''c1''"
  let ?r4 = "far_request ''r4'' ''u2'' ''c1''"
  note defs = town_busy_def env0_def insert_service_request_def town_def sample_request_def far_request_def
  have null: "pp_service_area_radius_km ?pp = None" by simp
  have user: "''v4'' \<noteq> []" by simp
  have prof: "filter (\<lambda>pp. pp_user_id pp = ''v4'') (provider_profiles town_busy) = [?pp]"
    by (simp add: defs)
  have avail: "pp_is_available ?pp = Some True" by simp
  have loc: "filter (\<lambda>p. pf_id p = ''v4'') (profiles town_busy) = [?pd]"
    by (simp add: defs)
  have pendingRequests: "filter (\<lambda>r. sr_status r = pending \<and>
           sr_category_id r \<in> set (map pc_category_id
              (filter (\<lambda>pc. pc_provider_profile_id pc = pp_id ?pp) (provider_categories town_busy))) \<and>
           sr_provider_id r = None) (service_requests town_busy) = [?r1, ?r2, ?r3, ?r4]"
    by (simp add: defs)
  have cats: "map pc_category_id
              (filter (\<lambda>pc. pc_provider_profile_id pc = pp_id ?pp) (provider_categories town_busy)) \<noteq> []"
    by (simp add: defs)
  have sel: "\<not> fails env0 Select_provider_profiles" "\<not> fails env0 Select_profiles"
             "\<not> fails env0 Select_provider_categories" "\<not> fails env0 Select_service_requests"
    by (simp_all add: defs)
  have within10: "filter (\<lambda>r. number_le
                            (calculateDistance_num
                               (parseFloat (pf_location_lat ?pd))
                               (parseFloat (pf_location_lng ?pd))
                               (Num (sr_location_lat r)) (Num (sr_location_lng r)))
                            (Num 10) \<and>
                         \<not> fails env0 (Update_service_requests (sr_id r))) [?r1, ?r2, ?r3, ?r4] = [?r1, ?r2, ?r3]"
    by (simp add: parseFloat_def defs)
  note t = null_radius_defaults_to_ten [of ?pp "''v4''" town_busy ?pd env0,
      OF null user prof avail loc cats _ sel, unfolded pendingRequests within10, THEN conjunct2]
  have run: "assign_pending_requests env0 town_busy (Some ''v4'') =
           (\<lparr>status = 200,
             body = [(''success'', JBool True),
                     (''message'', JStr (''Assigned '' @ string_of_nat (length [?r1, ?r2, ?r3]) @ '' pending request(s)'')),
                     (''assignedCount'', JNat (length [?r1, ?r2, ?r3]))]\<rparr>,
            fold (assign_step env0 ''v4'' (pp_id ?pp)) [?r1, ?r2, ?r3] town_busy)"
    by (rule t) simp
  have three: "string_of_nat (Suc (Suc (Suc 0))) = ''3''"
    by (simp add: string_of_nat.simps [of "Suc (Suc (Suc 0))"])
  show ?thesis
    unfolding run
    by (simp add: three assign_step_def batch_update_def update_service_requests_def update_row_def
        update_request_timestamps_def update_updated_at_column_def defs)
qed

section \<open>Calls on the sample stores\<close>

lemmas eval_defs = town_with_def insert_service_request_def town_def sample_request_def
  log_request_status_change_def env0_def env5_def single_def Let_def
  update_service_requests_def update_row_def update_request_timestamps_def update_updated_at_column_def
  insert_notification_def insert_notifications_def insert_history_def select_request_def

lemma town_assigned_eval:
  "town_assigned =
     (town_with ''c1'')
       \<lparr>service_requests :=
          [(sample_request ''r1'' ''u1'' ''c1'')
             \<lparr>sr_provider_id := Some ''p1'', sr_status := assigned,
              sr_assigned_at := Some 5, sr_updated_at := 5\<rparr>],
        request_status_history :=
          [\<lparr>h_request_id = ''r1'', h_status = pending, h_changed_by = Some ''u1'', h_notes = None\<rparr>,
           \<lparr>h_request_id = ''r1'', h_status = assigned, h_changed_by = Some ''u1'', h_notes = None\<rparr>],
        notifications :=
          [resident_notification (sample_request ''r1'' ''u1'' ''c1''),
           provider_notification ''v1'' (sample_request ''r1'' ''u1'' ''c1'')]\<rparr>"
  by (simp add: town_assigned_def assign_pending_requests_def eval_defs
      assign_step_def batch_update_def within_range_def serviceRadius_of_def parseFloat_def
      resident_notification_def provider_notification_def)

lemma assign_provider_commit:
  assumes "filter (\<lambda>r. sr_id r = requestId) (service_requests db) = [request]"
    and "\<not> fails e Select_service_requests" "\<not> fails e Select_provider_categories"
    and "\<not> fails e Select_provider_profiles" "\<not> fails e Select_profiles"
    and "\<not> fails e (Update_service_requests requestId)"
    and "providersWithDistance request
           (filter (\<lambda>pp. pp_id pp \<in> set (map pc_provider_profile_id
                 (filter (\<lambda>pc. pc_category_id pc = sr_category_id request) (provider_categories db))) \<and>
               pp_is_available pp = Some True) (provider_profiles db))
           (filter (\<lambda>p. pf_id p \<in> set (map pp_user_id
              (filter (\<lambda>pp. pp_id pp \<in> set (map pc_provider_profile_id
                 (filter (\<lambda>pc. pc_category_id pc = sr_category_id request) (provider_categories db))) \<and>
               pp_is_available pp = Some True) (provider_profiles db)))) (profiles db)) = p # ps"
  shows "assign_provider e db requestId =
           (assigned_response e p requestId,
            notify_assignment e request requestId p (assign_update e requestId (providerId p) db))"
proof -
  have req: "select_request e db requestId = Some request"
    using assms(1,2) by (simp add: select_request_def single_def)
  have members: "filter (\<lambda>pc. pc_category_id pc = sr_category_id request) (provider_categories db) \<noteq> []"
  proof
    assume "filter (\<lambda>pc. pc_category_id pc = sr_category_id request) (provider_categories db) = []"
    then show False
      using assms(7) by (simp add: providersWithDistance_def map_filter_simps)
  qed
  show ?thesis
    using assms req members by (simp add: assign_provider_def Let_def)
qed

lemma ranked_town:
  assumes "provider_categories db = provider_categories town"
    and "provider_profiles db = provider_profiles town"
    and "profiles db = profiles town"
    and "sr_category_id request = ''c1''" "sr_location_lat request = 0" "sr_location_lng request = 0"
  shows "providersWithDistance request
           (filter (\<lambda>pp. pp_id pp \<in> set (map pc_provider_profile_id
                 (filter (\<lambda>pc. pc_category_id pc = sr_category_id request) (provider_categories db))) \<and>
               pp_is_available pp = Some True) (provider_profiles db))
           (filter (\<lambda>p. pf_id p \<in> set (map pp_user_id
              (filter (\<lambda>pp. pp_id pp \<in> set (map pc_provider_profile_id
                 (filter (\<lambda>pc. pc_category_id pc = sr_category_id request) (provider_categories db))) \<and>
               pp_is_available pp = Some True) (provider_profiles db)))) (profiles db)) =
         [\<lparr>providerId = ''p2'', providerName = ''Bala'', distance = Num 0, serviceRadius = Num 0\<rparr>,
          \<lparr>providerId = ''p1'', providerName = ''Asha'', distance = Num (km_of_degrees (1 / 20)), serviceRadius = Num 10\<rparr>]"
  using assms
  by (simp add: town_def providersWithDistance_def map_filter_def to_candidate_def
      parseFloat_def in_radius_def by_distance_def SortCompare_def)

lemma town_assigned_once_eval:
  "town_assigned_once =
     (town_with ''c1'')
       \<lparr>service_requests :=
          [(sample_request ''r1'' ''u1'' ''c1'')
             \<lparr>sr_provider_id := Some ''p2'', sr_status := assigned,
              sr_assigned_at := Some 5, sr_updated_at := 5\<rparr>],
        request_status_history :=
          [\<lparr>h_request_id = ''r1'', h_status = pending, h_changed_by = Some ''u1'', h_notes = None\<rparr>,
           \<lparr>h_request_id = ''r1'', h_status = assigned, h_changed_by = Some ''u1'', h_notes = None\<rparr>],
        notifications :=
          [\<lparr>n_user_id = ''u1'', n_title = ''Service Request Assigned'',
            n_message = ''Your request has been assigned to Bala'', n_type = ''success'',
            n_related_request_id = ''r1''\<rparr>,
           \<lparr>n_user_id = ''v2'', n_title = ''New Job Assignment'',
            n_message = ''You have been assigned a new service request'', n_type = ''info'',
            n_related_request_id = ''r1''\<rparr>]\<rparr>"
proof -
  have found: "filter (\<lambda>r. sr_id r = ''r1'') (service_requests (town_with ''c1'')) = [sample_request ''r1'' ''u1'' ''c1'']"
    by (simp add: eval_defs)
  have ok: "\<not> fails env5 c" for c by (simp add: env5_def env0_def)
  note r = ranked_town [of "town_with ''c1''" "sample_request ''r1'' ''u1'' ''c1''"]
  have "assign_provider env5 (town_with ''c1'') ''r1'' =
          (assigned_response env5 \<lparr>providerId = ''p2'', providerName = ''Bala'', distance = Num 0, serviceRadius = Num 0\<rparr> ''r1'',
           notify_assignment env5 (sample_request ''r1'' ''u1'' ''c1'') ''r1''
             \<lparr>providerId = ''p2'', providerName = ''Bala'', distance = Num 0, serviceRadius = Num 0\<rparr>
             (assign_update env5 ''r1'' ''p2'' (town_with ''c1'')))"
    using assign_provider_commit [OF found ok ok ok ok ok r] by (simp add: eval_defs)
  then show ?thesis
    by (simp add: town_assigned_once_def notify_assignment_def assign_update_def eval_defs)
qed


lemma commit_in_town:
  assumes found: "filter (\<lambda>r. sr_id r = ''r1'') (service_requests db) = [request]"
    and ok: "\<And>c. \<not> fails e c"
    and tables: "provider_categories db = provider_categories town"
      "provider_profiles db = provider_profiles town" "profiles db = profiles town"
    and req: "sr_category_id request = ''c1''" "sr_location_lat request = 0" "sr_location_lng request = 0"
  shows "assign_provider e db ''r1'' =
          (assigned_response e \<lparr>providerId = ''p2'', providerName = ''Bala'', distance = Num 0, serviceRadius = Num 0\<rparr> ''r1'',
           notify_assignment e request ''r1''
             \<lparr>providerId = ''p2'', providerName = ''Bala'', distance = Num 0, serviceRadius = Num 0\<rparr>
             (assign_update e ''r1'' ''p2'' db))"
  using assign_provider_commit [OF found ok ok ok ok ok ranked_town [OF tables req]] by simp

section \<open>Assignment of a request that is already assigned\<close>

text \<open>
  Claim C1 says that the assignment write is guarded by \<open>status = 'pending'\<close> and
  \<open>provider_id IS NULL\<close>, so that a second assignment of an assigned request changes
  nothing. The update of \<open>assign-provider\<close> has no such guard. In \<open>town_assigned\<close>
  the request \<open>r1\<close> is assigned to \<open>p1\<close> since time 5; a call of
  \<open>assign-provider\<close> for \<open>r1\<close> at time 9 answers \<open>success: true\<close>, moves the
  request to \<open>p2\<close>, sets \<open>assigned_at\<close> to 9 and inserts two notifications.
\<close>

theorem reassignment_overwrites_provider:
  "service_requests town_assigned =
     [(sample_request ''r1'' ''u1'' ''c1'')
        \<lparr>sr_provider_id := Some ''p1'', sr_status := assigned,
         sr_assigned_at := Some 5, sr_updated_at := 5\<rparr>]
   \<and> fst (assign_provider env0 town_assigned ''r1'') =
     \<lparr>status = 200,
      body = [(''success'', JBool True),
              (''message'', JStr ''Provider assigned successfully''),
              (''provider'', JObj [(''id'', JStr ''p2''), (''name'', JStr ''Bala''), (''distance'', JStr ''0.00'')]),
              (''requestId'', JStr ''r1'')]\<rparr>
   \<and> service_requests (snd (assign_provider env0 town_assigned ''r1'')) =
     [(sample_request ''r1'' ''u1'' ''c1'')
        \<lparr>sr_provider_id := Some ''p2'', sr_status := assigned,
         sr_assigned_at := Some 9, sr_updated_at := 9\<rparr>]
   \<and> length (notifications (snd (assign_provider env0 town_assigned ''r1''))) =
     length (notifications town_assigned) + 2"
proof -
  let ?old = "(sample_request ''r1'' ''u1'' ''c1'')
        \<lparr>sr_provider_id := Some ''p1'', sr_status := assigned,
         sr_assigned_at := Some 5, sr_updated_at := 5\<rparr>"
  have before: "service_requests town_assigned = [?old]"
    by (simp add: town_assigned_eval)
  have found: "filter (\<lambda>r. sr_id r = ''r1'') (service_requests town_assigned) = [?old]"
    unfolding before by (simp add: sample_request_def)
  have ok: "\<not> fails env0 c" for c by (simp add: env0_def)
  have run: "assign_provider env0 town_assigned ''r1'' =
          (assigned_response env0 \<lparr>providerId = ''p2'', providerName = ''Bala'', distance = Num 0, serviceRadius = Num 0\<rparr> ''r1'',
           notify_assignment env0 ?old ''r1''
             \<lparr>providerId = ''p2'', providerName = ''Bala'', distance = Num 0, serviceRadius = Num 0\<rparr>
             (assign_update env0 ''r1'' ''p2'' town_assigned))"
    by (rule commit_in_town [OF found ok]) (simp_all add: town_assigned_eval eval_defs)
  show ?thesis
    unfolding run
    by (simp add: town_assigned_eval assigned_response_def notify_assignment_def assign_update_def eval_defs)
qed

lemmas rls_defs = handleMarkCompleted_def mark_completed_def may_select_def may_update_def
  is_provider_of_def has_role_def

lemma town_completed_eval:
  "service_requests town_completed =
     [(sample_request ''r1'' ''u1'' ''c1'')
        \<lparr>sr_provider_id := Some ''p2'', sr_status := completed,
         sr_assigned_at := Some 5, sr_completed_at := Some 5, sr_updated_at := 5\<rparr>]"
  "provider_profiles town_completed = provider_profiles town"
  "user_roles town_completed = user_roles town"
  unfolding town_completed_def town_assigned_once_eval
  by (simp_all add: rls_defs eval_defs)

section \<open>The timestamps of assignment and completion\<close>

text \<open>
  Claim C5 says that \<open>assigned_at\<close> and \<open>completed_at\<close> are set once and never
  changed afterwards. Both statements write the timestamp themselves, and the trigger
  leaves a timestamp that is not null alone, so the statement's value stands: a second
  \<open>assign-provider\<close> call at time 9 replaces the \<open>assigned_at\<close> of time 5, and a
  second \<open>handleMarkCompleted\<close> by the provider at time 9 replaces the
  \<open>completed_at\<close> of time 5.
\<close>

theorem timestamps_are_overwritten:
  "map sr_assigned_at (service_requests town_assigned_once) = [Some 5]
   \<and> map sr_assigned_at (service_requests (snd (assign_provider env0 town_assigned_once ''r1''))) = [Some 9]
   \<and> map sr_completed_at (service_requests town_completed) = [Some 5]
   \<and> map sr_completed_at (service_requests (snd (handleMarkCompleted env0 ''v2'' town_completed ''r1''))) = [Some 9]"
proof -
  let ?old = "(sample_request ''r1'' ''u1'' ''c1'')
        \<lparr>sr_provider_id := Some ''p2'', sr_status := assigned,
         sr_assigned_at := Some 5, sr_updated_at := 5\<rparr>"
  have a: "map sr_assigned_at (service_requests town_assigned_once) = [Some 5]"
    unfolding town_assigned_once_eval by (simp add: eval_defs)
  have found: "filter (\<lambda>r. sr_id r = ''r1'') (service_requests town_assigned_once) = [?old]"
    unfolding town_assigned_once_eval by (simp add: sample_request_def)
  have ok: "\<not> fails env0 c" for c by (simp add: env0_def)
  have run: "assign_provider env0 town_assigned_once ''r1'' =
          (assigned_response env0 \<lparr>providerId = ''p2'', providerName = ''Bala'', distance = Num 0, serviceRadius = Num 0\<rparr> ''r1'',
           notify_assignment env0 ?old ''r1''
             \<lparr>providerId = ''p2'', providerName = ''Bala'', distance = Num 0, serviceRadius = Num 0\<rparr>
             (assign_update env0 ''r1'' ''p2'' town_assigned_once))"
    by (rule commit_in_town [OF found ok]) (simp_all add: town_assigned_once_eval eval_defs)
  have b: "map sr_assigned_at (service_requests (snd (assign_provider env0 town_assigned_once ''r1''))) = [Some 9]"
    unfolding run
    by (simp add: town_assigned_once_eval notify_assignment_def assign_update_def eval_defs)
  have c: "map sr_completed_at (service_requests town_completed) = [Some 5]"
    by (simp add: town_completed_eval eval_defs)
  have d: "map sr_completed_at (service_requests (snd (handleMarkCompleted env0 ''v2'' town_completed ''r1''))) = [Some 9]"
    by (simp add: rls_defs town_completed_eval eval_defs)
  show ?thesis
    using a b c d by simp
qed


section \<open>History rows of the earlier handler\<close>


section \<open>What the trigger and the guarded update do keep\<close>

text \<open>
  The batch update, which is guarded by \<open>status = 'pending'\<close>, changes nothing when no
  row of that identifier is pending.
\<close>

lemma batch_update_skips_non_pending:
  assumes "\<forall>r \<in> set (service_requests db). sr_id r = rid \<longrightarrow> sr_status r \<noteq> pending"
  shows "batch_update e rid pid db = db"
proof -
  have "filter (\<lambda>r. sr_id r = rid \<and> sr_status r = pending) (service_requests db) = []"
    using assms by (auto simp: filter_empty_conv)
  moreover have "map (\<lambda>r. if sr_id r = rid \<and> sr_status r = pending then f r else r) (service_requests db) =
      service_requests db" for f
    using assms by (intro map_idI) auto
  ultimately show ?thesis
    by (simp add: batch_update_def update_service_requests_def)
qed

text \<open>
  The trigger \<open>update_request_timestamps\<close> never replaces a timestamp that is set, and
  it leaves a row that enters \<open>assigned\<close> or \<open>completed\<close> with the matching timestamp
  set.
\<close>

lemma trigger_keeps_timestamps:
  "sr_assigned_at NEW \<noteq> None \<Longrightarrow> sr_assigned_at (update_request_timestamps now NEW) = sr_assigned_at NEW"
  "sr_completed_at NEW \<noteq> None \<Longrightarrow> sr_completed_at (update_request_timestamps now NEW) = sr_completed_at NEW"
  "sr_status NEW = assigned \<Longrightarrow> sr_assigned_at (update_request_timestamps now NEW) \<noteq> None"
  "sr_status NEW = completed \<Longrightarrow> sr_completed_at (update_request_timestamps now NEW) \<noteq> None"
  by (auto simp: update_request_timestamps_def)

text \<open>
  The trigger \<open>log_request_status_change\<close> logs an insert once, and an update once
  when the status changes and not at all when it does not; so the handler that leaves
  the logging to the trigger appends exactly one row when it assigns a pending request.
\<close>

lemma trigger_logs_once:
  "length (log_request_status_change INSERT u OLD NEW) = 1"
  "sr_status OLD \<noteq> sr_status NEW \<Longrightarrow> length (log_request_status_change UPDATE u OLD NEW) = 1"
  "sr_status OLD = sr_status NEW \<Longrightarrow> log_request_status_change UPDATE u OLD NEW = []"
  by (simp_all add: log_request_status_change_def)

lemma assign_update_history:
  assumes "filter (\<lambda>r. sr_id r = rid) (service_requests db) = [request]"
  shows "request_status_history (assign_update e rid pid db) =
           request_status_history db @
           (if sr_status request = assigned then []
            else [\<lparr>h_request_id = rid, h_status = assigned,
                   h_changed_by = Some (sr_resident_id request), h_notes = None\<rparr>])"
proof -
  have "request \<in> set (filter (\<lambda>r. sr_id r = rid) (service_requests db))"
    unfolding assms by simp
  then have "sr_id request = rid"
    by simp
  then show ?thesis
    using assms by (simp add: assign_update_def update_service_requests_def log_request_status_change_def)
qed

end
